theory Spec2Isabelle
  imports Main "HOL-Library.Sublist"
begin

section \<open>JavaScript values used by the client\<close>

text \<open>
  Strings are lists of code units; the model covers the code units below 256 (one
  \<^typ>\<open>char\<close> each). Numbers are the integers (upstream codes, HTTP statuses, page
  sizes and budgets are integers; \<open>String(n)\<close> is the decimal numeral of an integer
  below \<open>10^21\<close> in magnitude); \<open>NaN\<close> is added where \<open>Number.parseInt\<close> can
  produce it. A JSON document is a value of \<open>json\<close>; a JavaScript value that may be
  \<open>undefined\<close> is a \<open>json option\<close>, with \<open>None\<close> for \<open>undefined\<close>.
\<close>

datatype json =
  JNull
  | JBool bool
  | JNum int
  | JStr string
  | JArr "json list"
  | JObj "(string \<times> json) list"

datatype number = NaN | Num int

text \<open>\<open>Array.prototype.join\<close> on strings.\<close>

fun join :: "string \<Rightarrow> string list \<Rightarrow> string" where
  "join sep [] = []"
| "join sep [x] = x"
| "join sep (x # y # ys) = x @ sep @ join sep (y # ys)"

text \<open>\<open>String(n)\<close> for an integer \<open>n\<close>: its decimal digits, with a sign.\<close>

fun decimal :: "nat \<Rightarrow> string" where
  "decimal n =
     (if n < 10 then [''0123456789'' ! n]
      else decimal (n div 10) @ [''0123456789'' ! (n mod 10)])"

declare decimal.simps [simp del]

definition Number_toString :: "int \<Rightarrow> string" where
  "Number_toString n = (if n < 0 then CHR ''-'' # decimal (nat (- n)) else decimal (nat n))"

text \<open>
  Truthiness (\<open>!v\<close>, \<open>v || d\<close>, \<open>v ? a : b\<close>): \<open>undefined\<close>, \<open>null\<close>, \<open>false\<close>,
  \<open>0\<close> and the empty string are falsy, everything else is truthy.
\<close>

fun truthy :: "json option \<Rightarrow> bool" where
  "truthy None = False"
| "truthy (Some JNull) = False"
| "truthy (Some (JBool b)) = b"
| "truthy (Some (JNum n)) = (n \<noteq> 0)"
| "truthy (Some (JStr s)) = (s \<noteq> [])"
| "truthy (Some (JArr xs)) = True"
| "truthy (Some (JObj kvs)) = True"

text \<open>
  Reading a property \<open>v.k\<close> of a truthy value, for the property names the client reads
  (\<open>error\<close>, \<open>message\<close>, \<open>code\<close>, \<open>id\<close>, ...): an object gives the entry, every other
  truthy value gives \<open>undefined\<close>.
\<close>

fun get_prop :: "json option \<Rightarrow> string \<Rightarrow> json option" where
  "get_prop (Some (JObj kvs)) k = map_of kvs k"
| "get_prop v k = None"

text \<open>
  \<open>ToString\<close>, as applied by \<open>String(v)\<close>, by a template literal and by the \<open>Error\<close>
  constructor to its message.
\<close>

fun ToString :: "json \<Rightarrow> string" where
  "ToString JNull = ''null''"
| "ToString (JBool b) = (if b then ''true'' else ''false'')"
| "ToString (JNum n) = Number_toString n"
| "ToString (JStr s) = s"
| "ToString (JArr xs) = join '','' (map (\<lambda>x. if x = JNull then [] else ToString x) xs)"
| "ToString (JObj kvs) = ''[object Object]''"

definition js_String :: "json option \<Rightarrow> string" where
  "js_String v = (case v of None \<Rightarrow> ''undefined'' | Some j \<Rightarrow> ToString j)"

text \<open>
  \<open>JSON.stringify\<close>. A string is quoted, with the two-character escapes of the
  standard and \<open>\u00XX\<close> (lower-case digits) for the other control characters.
\<close>

definition hex_lower :: "nat \<Rightarrow> char" where
  "hex_lower n = ''0123456789abcdef'' ! n"

definition QuoteJSONChar :: "char \<Rightarrow> string" where
  "QuoteJSONChar c =
     (if c = CHR 0x08 then [CHR 0x5C, CHR ''b'']
      else if c = CHR 0x09 then [CHR 0x5C, CHR ''t'']
      else if c = CHR 0x0A then [CHR 0x5C, CHR ''n'']
      else if c = CHR 0x0C then [CHR 0x5C, CHR ''f'']
      else if c = CHR 0x0D then [CHR 0x5C, CHR ''r'']
      else if c = CHR 0x22 then [CHR 0x5C, CHR 0x22]
      else if c = CHR 0x5C then [CHR 0x5C, CHR 0x5C]
      else if (of_char c :: nat) < 32
        then [CHR 0x5C, CHR ''u'', CHR ''0'', CHR ''0'',
              hex_lower (of_char c div 16), hex_lower (of_char c mod 16)]
      else [c])"

definition QuoteJSONString :: "string \<Rightarrow> string" where
  "QuoteJSONString s = CHR 0x22 # concat (map QuoteJSONChar s) @ [CHR 0x22]"

fun JSON_stringify :: "json \<Rightarrow> string" where
  "JSON_stringify JNull = ''null''"
| "JSON_stringify (JBool b) = (if b then ''true'' else ''false'')"
| "JSON_stringify (JNum n) = Number_toString n"
| "JSON_stringify (JStr s) = QuoteJSONString s"
| "JSON_stringify (JArr xs) = ''['' @ join '','' (map JSON_stringify xs) @ '']''"
| "JSON_stringify (JObj kvs) =
     ''{'' @ join '','' (map (\<lambda>(k, v). QuoteJSONString k @ '':'' @ JSON_stringify v) kvs) @ ''}''"

section \<open>Error taxonomy (utils/errors.ts)\<close>

text \<open>
  The class hierarchy under \<open>MetaAdsApiError\<close> is one record: \<open>name\<close> holds the class
  name each constructor assigns, and the field a subclass adds (\<open>retryAfterSeconds\<close> of
  \<open>RateLimitError\<close>, \<open>details\<close> of \<open>ValidationError\<close>) is \<open>None\<close> in the other
  classes.
\<close>

record extra =
  errorSubcode :: "json option"
  errorUserTitle :: "json option"
  errorUserMsg :: "json option"
  fbTraceId :: "json option"

record MetaAdsApiError =
  name :: string
  message :: string
  statusCode :: "int option"
  code :: string
  errorSubcode :: "json option"
  errorUserTitle :: "json option"
  errorUserMsg :: "json option"
  fbTraceId :: "json option"
  retryable :: bool
  retryAfterSeconds :: "number option"
  details :: "(string \<times> string list) list option"

definition new_MetaAdsApiError ::
  "string \<Rightarrow> int option \<Rightarrow> string option \<Rightarrow> bool \<Rightarrow> extra option \<Rightarrow> MetaAdsApiError" where
  "new_MetaAdsApiError msg status cd retry ext =
     \<lparr> MetaAdsApiError.name = ''MetaAdsApiError'',
       MetaAdsApiError.message = msg,
       MetaAdsApiError.statusCode = status,
       MetaAdsApiError.code =
         (case cd of None \<Rightarrow> ''META_ADS_ERROR''
          | Some c \<Rightarrow> if c = [] then ''META_ADS_ERROR'' else c),
       MetaAdsApiError.errorSubcode = (case ext of None \<Rightarrow> None | Some x \<Rightarrow> extra.errorSubcode x),
       MetaAdsApiError.errorUserTitle = (case ext of None \<Rightarrow> None | Some x \<Rightarrow> extra.errorUserTitle x),
       MetaAdsApiError.errorUserMsg = (case ext of None \<Rightarrow> None | Some x \<Rightarrow> extra.errorUserMsg x),
       MetaAdsApiError.fbTraceId = (case ext of None \<Rightarrow> None | Some x \<Rightarrow> extra.fbTraceId x),
       MetaAdsApiError.retryable = retry,
       MetaAdsApiError.retryAfterSeconds = None,
       MetaAdsApiError.details = None \<rparr>"

definition new_RateLimitError :: "string \<Rightarrow> number \<Rightarrow> json option \<Rightarrow> MetaAdsApiError" where
  "new_RateLimitError msg seconds trace =
     (new_MetaAdsApiError msg (Some 429) (Some ''RATE_LIMIT_EXCEEDED'') True
        (Some \<lparr> extra.errorSubcode = None, extra.errorUserTitle = None,
                extra.errorUserMsg = None, extra.fbTraceId = trace \<rparr>))
     \<lparr> MetaAdsApiError.name := ''RateLimitError'',
       MetaAdsApiError.retryAfterSeconds := Some seconds \<rparr>"

definition new_AuthenticationError :: "string \<Rightarrow> json option \<Rightarrow> json option \<Rightarrow> MetaAdsApiError" where
  "new_AuthenticationError msg subcode trace =
     (new_MetaAdsApiError msg (Some 401) (Some ''AUTHENTICATION_FAILED'') False
        (Some \<lparr> extra.errorSubcode = subcode, extra.errorUserTitle = None,
                extra.errorUserMsg = None, extra.fbTraceId = trace \<rparr>))
     \<lparr> MetaAdsApiError.name := ''AuthenticationError'' \<rparr>"

definition new_PermissionError :: "string \<Rightarrow> json option \<Rightarrow> json option \<Rightarrow> MetaAdsApiError" where
  "new_PermissionError msg subcode trace =
     (new_MetaAdsApiError msg (Some 403) (Some ''PERMISSION_DENIED'') False
        (Some \<lparr> extra.errorSubcode = subcode, extra.errorUserTitle = None,
                extra.errorUserMsg = None, extra.fbTraceId = trace \<rparr>))
     \<lparr> MetaAdsApiError.name := ''PermissionError'' \<rparr>"

definition new_NotFoundError :: "string \<Rightarrow> string \<Rightarrow> json option \<Rightarrow> MetaAdsApiError" where
  "new_NotFoundError entityType ident trace =
     (new_MetaAdsApiError (entityType @ '' with ID '' @ [CHR 0x27] @ ident @ [CHR 0x27] @ '' not found'')
        (Some 404) (Some ''NOT_FOUND'') False
        (Some \<lparr> extra.errorSubcode = None, extra.errorUserTitle = None,
                extra.errorUserMsg = None, extra.fbTraceId = trace \<rparr>))
     \<lparr> MetaAdsApiError.name := ''NotFoundError'' \<rparr>"

definition new_ValidationError ::
  "string \<Rightarrow> (string \<times> string list) list \<Rightarrow> json option \<Rightarrow> MetaAdsApiError" where
  "new_ValidationError msg dets trace =
     (new_MetaAdsApiError msg (Some 400) (Some ''VALIDATION_ERROR'') False
        (Some \<lparr> extra.errorSubcode = None, extra.errorUserTitle = None,
                extra.errorUserMsg = None, extra.fbTraceId = trace \<rparr>))
     \<lparr> MetaAdsApiError.name := ''ValidationError'',
       MetaAdsApiError.details := Some dets \<rparr>"

text \<open>
  \<open>parseMetaApiError(errorBody, statusCode)\<close>. The body is a
  \<open>Record<string, unknown>\<close>, the list of its entries. The message goes through the
  \<open>Error\<close> constructor, which applies \<open>ToString\<close>. The source declares \<open>code\<close> as
  \<open>number | undefined\<close>: the range test \<open>code && code >= 200 && code < 300\<close> is
  modelled for every code that is a number, a boolean, \<open>null\<close>, an object or absent
  (the last four never pass it); a code that is a JSON string or array would be
  converted by \<open>ToNumber\<close>, which is outside the model.
\<close>

definition parseMetaApiError :: "(string \<times> json) list \<Rightarrow> int \<Rightarrow> MetaAdsApiError" where
  "parseMetaApiError errorBody status =
     (let error = map_of errorBody ''error'' in
      if \<not> truthy error then
        new_MetaAdsApiError (''API error: '' @ Number_toString status) (Some status)
          (Some ''UNKNOWN_ERROR'') False None
      else
        let msg = (if truthy (get_prop error ''message'') then js_String (get_prop error ''message'')
                   else ''Unknown error'');
            cd = get_prop error ''code'';
            subcode = get_prop error ''error_subcode'';
            userTitle = get_prop error ''error_user_title'';
            userMsg = get_prop error ''error_user_msg'';
            trace = get_prop error ''fbtrace_id''
        in
          if cd = Some (JNum 190) then new_AuthenticationError msg subcode trace
          else if cd = Some (JNum 10)
                  \<or> (case cd of Some (JNum n) \<Rightarrow> n \<noteq> 0 \<and> 200 \<le> n \<and> n < 300 | _ \<Rightarrow> False)
            then new_PermissionError msg subcode trace
          else if cd = Some (JNum 4) \<or> cd = Some (JNum 17) \<or> cd = Some (JNum 32)
                  \<or> cd = Some (JNum 613)
            then new_RateLimitError msg (Num 60) trace
          else if cd = Some (JNum 100) then new_ValidationError msg [] trace
          else
            new_MetaAdsApiError msg (Some status)
              (Some (if truthy cd then js_String cd else ''UNKNOWN_ERROR'')) False
              (Some \<lparr> extra.errorSubcode = subcode, extra.errorUserTitle = userTitle,
                      extra.errorUserMsg = userMsg, extra.fbTraceId = trace \<rparr>))"

section \<open>Credentials (types/env.ts)\<close>

record TenantCredentials =
  accessToken :: string
  adAccountId :: "string option"
  businessId :: "string option"
  appId :: "string option"
  appSecret :: "string option"
  apiVersion :: "string option"

text \<open>
  What a call can throw: an error of the taxonomy, a plain \<open>Error\<close> with its message,
  the \<open>TypeError\<close> of reading a property of \<open>null\<close> or \<open>undefined\<close>, the rejection
  of \<open>fetch\<close>, and the rejection of \<open>response.json()\<close> on a body that is not JSON.
\<close>

datatype thrown =
  ApiError MetaAdsApiError
  | Error string
  | TypeError
  | FetchFailed
  | SyntaxError

definition validateCredentials :: "TenantCredentials \<Rightarrow> thrown + unit" where
  "validateCredentials credentials =
     (if accessToken credentials = []
      then Inl (Error ''Missing credentials. Provide X-Meta-Access-Token header.'')
      else Inr ())"

section \<open>The client (client.ts)\<close>

definition META_API_BASE_URL :: string where
  "META_API_BASE_URL = ''https://graph.facebook.com''"

definition DEFAULT_API_VERSION :: string where
  "DEFAULT_API_VERSION = ''v21.0''"

record MetaAdsClientImpl =
  credentials :: TenantCredentials
  baseUrl :: string
  apiVersion :: string

definition new_MetaAdsClientImpl :: "TenantCredentials \<Rightarrow> MetaAdsClientImpl" where
  "new_MetaAdsClientImpl creds =
     \<lparr> credentials = creds,
       baseUrl = META_API_BASE_URL,
       MetaAdsClientImpl.apiVersion =
         (case TenantCredentials.apiVersion creds of
            None \<Rightarrow> DEFAULT_API_VERSION
          | Some v \<Rightarrow> if v = [] then DEFAULT_API_VERSION else v) \<rparr>"

definition createMetaAdsClient :: "TenantCredentials \<Rightarrow> thrown + MetaAdsClientImpl" where
  "createMetaAdsClient creds =
     (if accessToken creds = []
      then Inl (ApiError (new_AuthenticationError ''Access token is required'' None None))
      else Inr (new_MetaAdsClientImpl creds))"

subsection \<open>Query parameters\<close>

text \<open>
  A parameter value has the type \<open>string | string[] | number | boolean | undefined\<close>.
  A parameter object is the list of its entries in the order of \<open>Object.entries\<close>;
  \<open>assign\<close> is the assignment \<open>o.k = v\<close>, which keeps the place of a key that is
  already there.
\<close>

datatype param =
  PString string
  | PArray "string list"
  | PNumber int
  | PBoolean bool
  | PUndefined

fun assign :: "(string \<times> 'a) list \<Rightarrow> string \<Rightarrow> 'a \<Rightarrow> (string \<times> 'a) list" where
  "assign [] k v = [(k, v)]"
| "assign ((k', v') # rest) k v =
     (if k' = k then (k, v) # rest else (k', v') # assign rest k v)"

text \<open>\<open>String(value)\<close> for a parameter that is not an array.\<close>

fun param_String :: "param \<Rightarrow> string" where
  "param_String (PString s) = s"
| "param_String (PNumber n) = Number_toString n"
| "param_String (PBoolean b) = (if b then ''true'' else ''false'')"
| "param_String (PArray xs) = join '','' xs"
| "param_String PUndefined = ''undefined''"

text \<open>
  \<open>URLSearchParams\<close> is its list of name-value pairs. \<open>set\<close> overwrites the first
  pair of that name and removes the others, or appends a pair. \<open>toString\<close> is the
  \<open>application/x-www-form-urlencoded\<close> serializer: the UTF-8 bytes of each name and
  value, a space as \<open>+\<close>, the bytes of letters, digits and \<open>*-._\<close> as they are, every
  other byte as \<open>%XX\<close>.
\<close>

fun URLSearchParams_set :: "(string \<times> string) list \<Rightarrow> string \<Rightarrow> string \<Rightarrow> (string \<times> string) list" where
  "URLSearchParams_set [] k v = [(k, v)]"
| "URLSearchParams_set ((k', v') # rest) k v =
     (if k' = k then (k, v) # filter (\<lambda>(a, b). a \<noteq> k) rest
      else (k', v') # URLSearchParams_set rest k v)"

definition hex_upper :: "nat \<Rightarrow> char" where
  "hex_upper n = ''0123456789ABCDEF'' ! n"

definition utf8_encode :: "char \<Rightarrow> nat list" where
  "utf8_encode c =
     (let n = of_char c in if n < 128 then [n] else [192 + n div 64, 128 + n mod 64])"

definition percent_byte :: "nat \<Rightarrow> string" where
  "percent_byte b = [CHR ''%'', hex_upper (b div 16), hex_upper (b mod 16)]"

definition urlencode_char :: "char \<Rightarrow> string" where
  "urlencode_char c =
     (let n = (of_char c :: nat) in
      if c = CHR '' '' then ''+''
      else if c = CHR ''*'' \<or> c = CHR ''-'' \<or> c = CHR ''.'' \<or> c = CHR ''_''
              \<or> (48 \<le> n \<and> n \<le> 57) \<or> (65 \<le> n \<and> n \<le> 90) \<or> (97 \<le> n \<and> n \<le> 122)
        then [c]
      else concat (map percent_byte (utf8_encode c)))"

definition urlencode :: "string \<Rightarrow> string" where
  "urlencode s = concat (map urlencode_char s)"

definition URLSearchParams_toString :: "(string \<times> string) list \<Rightarrow> string" where
  "URLSearchParams_toString sp =
     join ''&'' (map (\<lambda>(k, v). urlencode k @ ''='' @ urlencode v) sp)"

subsection \<open>The network\<close>

text \<open>
  \<open>fetch(url, init)\<close> sends one request. The upstream is a function of the requests
  sent so far and of the request; it answers with a response or not at all (\<open>fetch\<close>
  rejects). The state threaded through the client is the list of requests sent.
  A response gives its status, its headers through \<open>headers.get\<close>, and its body
  through \<open>json()\<close>, which is \<open>None\<close> when the body does not parse.
\<close>

record http_request =
  url :: string
  httpMethod :: "string option"
  headers :: "(string \<times> string) list"
  body :: "(string \<times> string) list option"

record response =
  status :: int
  headers_get :: "string \<Rightarrow> string option"
  json :: "json option"

type_synonym server = "http_request list \<Rightarrow> http_request \<Rightarrow> response option"

type_synonym 'a io = "http_request list \<Rightarrow> (thrown + 'a) \<times> http_request list"

definition fetch :: "server \<Rightarrow> http_request \<Rightarrow> http_request list \<Rightarrow> response option \<times> http_request list" where
  "fetch srv req sent = (srv sent req, sent @ [req])"

definition ok :: "response \<Rightarrow> bool" where
  "ok r = (200 \<le> status r \<and> status r \<le> 299)"

text \<open>
  \<open>Number.parseInt(s, 10)\<close>: leading white space is skipped, a sign is read, and the
  longest run of decimal digits is the value; with no digit the result is \<open>NaN\<close>.
  The white space is the white space among the code units below 256. The value is the
  exact integer of the digits (JavaScript rounds it above \<open>2^53\<close>).
\<close>

definition is_StrWhiteSpaceChar :: "char \<Rightarrow> bool" where
  "is_StrWhiteSpaceChar c =
     (c = CHR 0x09 \<or> c = CHR 0x0A \<or> c = CHR 0x0B \<or> c = CHR 0x0C \<or> c = CHR 0x0D
      \<or> c = CHR 0x20 \<or> c = CHR 0xA0)"

definition is_digit :: "char \<Rightarrow> bool" where
  "is_digit c = (48 \<le> (of_char c :: nat) \<and> (of_char c :: nat) \<le> 57)"

definition parseInt :: "string \<Rightarrow> number" where
  "parseInt s =
     (let t = dropWhile is_StrWhiteSpaceChar s;
          negative = (case t of c # _ \<Rightarrow> c = CHR ''-'' | [] \<Rightarrow> False);
          u = (case t of c # rest \<Rightarrow> if c = CHR ''+'' \<or> c = CHR ''-'' then rest else t | [] \<Rightarrow> t);
          ds = takeWhile is_digit u
      in if ds = [] then NaN
         else Num ((if negative then - 1 else 1)
                   * int (foldl (\<lambda>a c. 10 * a + (of_char c - 48)) 0 ds)))"

subsection \<open>The request primitives\<close>

record RequestInit =
  httpMethod :: "string option"
  headers :: "(string \<times> string) list option"

definition getAuthParams :: "MetaAdsClientImpl \<Rightarrow> (string \<times> string) list" where
  "getAuthParams this = [(''access_token'', accessToken (credentials this))]"

text \<open>The loop of \<open>request\<close> over \<open>Object.entries(params)\<close>.\<close>

definition add_param :: "(string \<times> string) list \<Rightarrow> string \<times> param \<Rightarrow> (string \<times> string) list" where
  "add_param searchParams entry =
     (case entry of (key, val) \<Rightarrow>
        if val \<noteq> PUndefined then
          (case val of
             PArray xs \<Rightarrow> URLSearchParams_set searchParams key (JSON_stringify (JArr (map JStr xs)))
           | _ \<Rightarrow> URLSearchParams_set searchParams key (param_String val))
        else searchParams)"

definition request_searchParams ::
  "MetaAdsClientImpl \<Rightarrow> (string \<times> param) list option \<Rightarrow> (string \<times> string) list" where
  "request_searchParams this params =
     (case params of
        None \<Rightarrow> getAuthParams this
      | Some entries \<Rightarrow> foldl add_param (getAuthParams this) entries)"

text \<open>
  \<open>throw parseMetaApiError(errorBody as Record<string, unknown>, response.status)\<close>:
  the body read as a record. A JSON value that is no object has no property \<open>error\<close>;
  on \<open>null\<close> the read throws.
\<close>

definition throw_parseMetaApiError :: "json \<Rightarrow> int \<Rightarrow> thrown" where
  "throw_parseMetaApiError errorBody st =
     (case errorBody of
        JNull \<Rightarrow> TypeError
      | JObj entries \<Rightarrow> ApiError (parseMetaApiError entries st)
      | _ \<Rightarrow> ApiError (parseMetaApiError [] st))"

text \<open>
  The request that \<open>request\<close> hands to \<open>fetch\<close>: the URL with the serialized query,
  and \<open>options\<close> with the content type added under the headers of \<open>options\<close>.
\<close>

definition request_init ::
  "MetaAdsClientImpl \<Rightarrow> string \<Rightarrow> RequestInit \<Rightarrow> (string \<times> param) list option \<Rightarrow> http_request" where
  "request_init this endpoint options params =
     \<lparr> url = baseUrl this @ ''/'' @ MetaAdsClientImpl.apiVersion this @ endpoint @ ''?''
             @ URLSearchParams_toString (request_searchParams this params),
       http_request.httpMethod = RequestInit.httpMethod options,
       http_request.headers =
         foldl (\<lambda>hs (k, v). assign hs k v) [(''Content-Type'', ''application/json'')]
           (case RequestInit.headers options of None \<Rightarrow> [] | Some hs \<Rightarrow> hs),
       body = None \<rparr>"

definition request ::
  "server \<Rightarrow> MetaAdsClientImpl \<Rightarrow> string \<Rightarrow> RequestInit \<Rightarrow> (string \<times> param) list option
     \<Rightarrow> (json option) io" where
  "request srv this endpoint options params sent =
     (case fetch srv (request_init this endpoint options params) sent of
        (None, sent') \<Rightarrow> (Inl FetchFailed, sent')
      | (Some response, sent') \<Rightarrow>
          if response.status response = 429 then
            (let retryAfter = headers_get response ''Retry-After'' in
             (Inl (ApiError (new_RateLimitError ''Rate limit exceeded''
                     (case retryAfter of
                        None \<Rightarrow> Num 60
                      | Some h \<Rightarrow> if h \<noteq> [] then parseInt h else Num 60)
                     None)), sent'))
          else if \<not> ok response then
            (Inl (throw_parseMetaApiError
                    (case json response of None \<Rightarrow> JObj [] | Some j \<Rightarrow> j)
                    (response.status response)), sent')
          else if response.status response = 204 then (Inr None, sent')
          else (case json response of
                  None \<Rightarrow> (Inl SyntaxError, sent')
                | Some j \<Rightarrow> (Inr (Some j), sent')))"

definition postForm ::
  "server \<Rightarrow> MetaAdsClientImpl \<Rightarrow> string \<Rightarrow> (string \<times> string) list \<Rightarrow> json io" where
  "postForm srv this endpoint formData sent =
     (let formData' = formData @ [(''access_token'', accessToken (credentials this))];
          target = baseUrl this @ ''/'' @ MetaAdsClientImpl.apiVersion this @ endpoint;
          init = \<lparr> url = target,
                   http_request.httpMethod = Some ''POST'',
                   http_request.headers = [],
                   body = Some formData' \<rparr>
      in case fetch srv init sent of
           (None, sent') \<Rightarrow> (Inl FetchFailed, sent')
         | (Some response, sent') \<Rightarrow>
             if \<not> ok response then
               (Inl (throw_parseMetaApiError
                       (case json response of None \<Rightarrow> JObj [] | Some j \<Rightarrow> j)
                       (response.status response)), sent')
             else (case json response of
                     None \<Rightarrow> (Inl SyntaxError, sent')
                   | Some j \<Rightarrow> (Inr j, sent')))"

subsection \<open>Default field lists\<close>

definition DEFAULT_AD_ACCOUNT_FIELDS :: string where
  "DEFAULT_AD_ACCOUNT_FIELDS = join '',''
     [''id'', ''account_id'', ''name'', ''account_status'', ''amount_spent'', ''balance'',
      ''business'', ''currency'', ''timezone_name'', ''created_time'']"

definition DEFAULT_CAMPAIGN_FIELDS :: string where
  "DEFAULT_CAMPAIGN_FIELDS = join '',''
     [''id'', ''account_id'', ''name'', ''objective'', ''status'', ''effective_status'',
      ''buying_type'', ''daily_budget'', ''lifetime_budget'', ''budget_remaining'',
      ''bid_strategy'', ''special_ad_categories'', ''start_time'', ''stop_time'',
      ''created_time'', ''updated_time'']"

definition DEFAULT_ADSET_FIELDS :: string where
  "DEFAULT_ADSET_FIELDS = join '',''
     [''id'', ''account_id'', ''campaign_id'', ''name'', ''status'', ''effective_status'',
      ''billing_event'', ''optimization_goal'', ''bid_amount'', ''bid_strategy'',
      ''daily_budget'', ''lifetime_budget'', ''budget_remaining'', ''start_time'', ''end_time'',
      ''targeting'', ''promoted_object'', ''created_time'', ''updated_time'']"

definition DEFAULT_AD_FIELDS :: string where
  "DEFAULT_AD_FIELDS = join '',''
     [''id'', ''account_id'', ''adset_id'', ''campaign_id'', ''name'', ''status'',
      ''effective_status'', ''creative'', ''created_time'', ''updated_time'']"

definition DEFAULT_CREATIVE_FIELDS :: string where
  "DEFAULT_CREATIVE_FIELDS = join '',''
     [''id'', ''account_id'', ''name'', ''title'', ''body'', ''call_to_action_type'',
      ''image_hash'', ''image_url'', ''video_id'', ''thumbnail_url'', ''object_story_spec'',
      ''object_type'', ''status'', ''created_time'']"

definition DEFAULT_AUDIENCE_FIELDS :: string where
  "DEFAULT_AUDIENCE_FIELDS = join '',''
     [''id'', ''account_id'', ''name'', ''description'', ''subtype'',
      ''approximate_count_lower_bound'', ''approximate_count_upper_bound'', ''data_source'',
      ''delivery_status'', ''operation_status'', ''retention_days'', ''time_created'',
      ''time_updated'']"

definition DEFAULT_PIXEL_FIELDS :: string where
  "DEFAULT_PIXEL_FIELDS = join '',''
     [''id'', ''name'', ''code'', ''creation_time'', ''creator'', ''data_use_setting'',
      ''enable_automatic_matching'', ''last_fired_time'', ''owner_business'',
      ''owner_ad_account'']"

definition DEFAULT_CATALOG_FIELDS :: string where
  "DEFAULT_CATALOG_FIELDS = join '',''
     [''id'', ''name'', ''business'', ''feed_count'', ''product_count'', ''vertical'']"

subsection \<open>Inputs of the entity operations (types/entities.ts)\<close>

text \<open>
  The status types of campaigns, ad sets and ads are the same four string literals. A
  value of one of these unions is a non-empty string, so it is always truthy.
\<close>

datatype CampaignStatus = ACTIVE | PAUSED | DELETED | ARCHIVED

type_synonym AdSetStatus = CampaignStatus

type_synonym AdStatus = CampaignStatus

fun CampaignStatus_string :: "CampaignStatus \<Rightarrow> string" where
  "CampaignStatus_string ACTIVE = ''ACTIVE''"
| "CampaignStatus_string PAUSED = ''PAUSED''"
| "CampaignStatus_string DELETED = ''DELETED''"
| "CampaignStatus_string ARCHIVED = ''ARCHIVED''"

datatype SpecialAdCategory =
  NONE | EMPLOYMENT | HOUSING | CREDIT | ISSUES_ELECTIONS_POLITICS | ONLINE_GAMBLING_AND_GAMING

fun SpecialAdCategory_string :: "SpecialAdCategory \<Rightarrow> string" where
  "SpecialAdCategory_string NONE = ''NONE''"
| "SpecialAdCategory_string EMPLOYMENT = ''EMPLOYMENT''"
| "SpecialAdCategory_string HOUSING = ''HOUSING''"
| "SpecialAdCategory_string CREDIT = ''CREDIT''"
| "SpecialAdCategory_string ISSUES_ELECTIONS_POLITICS = ''ISSUES_ELECTIONS_POLITICS''"
| "SpecialAdCategory_string ONLINE_GAMBLING_AND_GAMING = ''ONLINE_GAMBLING_AND_GAMING''"

datatype BidStrategy =
  LOWEST_COST_WITHOUT_CAP | LOWEST_COST_WITH_BID_CAP | COST_CAP | LOWEST_COST_WITH_MIN_ROAS

fun BidStrategy_string :: "BidStrategy \<Rightarrow> string" where
  "BidStrategy_string LOWEST_COST_WITHOUT_CAP = ''LOWEST_COST_WITHOUT_CAP''"
| "BidStrategy_string LOWEST_COST_WITH_BID_CAP = ''LOWEST_COST_WITH_BID_CAP''"
| "BidStrategy_string COST_CAP = ''COST_CAP''"
| "BidStrategy_string LOWEST_COST_WITH_MIN_ROAS = ''LOWEST_COST_WITH_MIN_ROAS''"

datatype BuyingType = AUCTION | RESERVED

fun BuyingType_string :: "BuyingType \<Rightarrow> string" where
  "BuyingType_string AUCTION = ''AUCTION''"
| "BuyingType_string RESERVED = ''RESERVED''"

text \<open>
  The objective, the optimization goal and the billing event are larger unions of string
  literals; the client only passes them on, and the model takes any string. Structured
  inputs (promoted object, targeting, creative, tracking specs) are JSON values.
\<close>

record CampaignCreateInput =
  name :: string
  objective :: string
  status :: "CampaignStatus option"
  special_ad_categories :: "SpecialAdCategory list option"
  daily_budget :: "int option"
  lifetime_budget :: "int option"
  bid_strategy :: "BidStrategy option"
  spend_cap :: "int option"
  buying_type :: "BuyingType option"
  start_time :: "string option"
  stop_time :: "string option"
  promoted_object :: "json option"

record CampaignUpdateInput =
  name :: "string option"
  status :: "CampaignStatus option"
  daily_budget :: "int option"
  lifetime_budget :: "int option"
  bid_strategy :: "BidStrategy option"
  spend_cap :: "int option"
  start_time :: "string option"
  stop_time :: "string option"

record AdSetUpdateInput =
  name :: "string option"
  status :: "AdSetStatus option"
  targeting :: "json option"
  bid_amount :: "int option"
  bid_strategy :: "BidStrategy option"
  daily_budget :: "int option"
  lifetime_budget :: "int option"
  start_time :: "string option"
  end_time :: "string option"
  optimization_goal :: "string option"
  billing_event :: "string option"

record AdUpdateInput =
  name :: "string option"
  status :: "AdStatus option"
  creative :: "json option"
  tracking_specs :: "json list option"

record CustomAudienceUpdateInput =
  name :: "string option"
  description :: "string option"
  opt_out_link :: "string option"

text \<open>
  The parameters of the list operations: \<open>PaginationParams\<close> with the optional fields
  the operations add to it; an operation reads the fields its signature declares.
\<close>

record ListParams =
  limit :: "int option"
  after :: "string option"
  before :: "string option"
  fields' :: "string option"
  effectiveStatus :: "string list option"
  campaignId :: "string option"
  adSetId :: "string option"
  hashes :: "string list option"

subsection \<open>Building parameter objects\<close>

text \<open>
  \<open>v || d\<close> for an optional string and an optional number, and \<open>v\<close> when it is truthy
  (the test of \<open>if (v) ...\<close>).
\<close>

definition or_string :: "string option \<Rightarrow> string \<Rightarrow> string" where
  "or_string v d = (case v of None \<Rightarrow> d | Some s \<Rightarrow> if s = [] then d else s)"

definition or_number :: "int option \<Rightarrow> int \<Rightarrow> int" where
  "or_number v d = (case v of None \<Rightarrow> d | Some n \<Rightarrow> if n = 0 then d else n)"

definition truthy_string :: "string option \<Rightarrow> string option" where
  "truthy_string v = (case v of None \<Rightarrow> None | Some s \<Rightarrow> if s = [] then None else Some s)"

definition truthy_number :: "int option \<Rightarrow> int option" where
  "truthy_number v = (case v of None \<Rightarrow> None | Some n \<Rightarrow> if n = 0 then None else Some n)"

text \<open>An optional value as a parameter: \<open>undefined\<close> stays \<open>undefined\<close>.\<close>

definition opt_string :: "string option \<Rightarrow> param" where
  "opt_string v = (case v of None \<Rightarrow> PUndefined | Some s \<Rightarrow> PString s)"

definition opt_array :: "string list option \<Rightarrow> param" where
  "opt_array v = (case v of None \<Rightarrow> PUndefined | Some xs \<Rightarrow> PArray xs)"

text \<open>
  A run of guarded assignments \<open>if (...) params.k = v\<close>: each entry of the list is a
  key with the value to assign, or \<open>None\<close> when the guard fails.
\<close>

definition assign_each :: "(string \<times> 'a) list \<Rightarrow> (string \<times> 'a option) list \<Rightarrow> (string \<times> 'a) list" where
  "assign_each obj guarded =
     foldl (\<lambda>ps (k, v). case v of None \<Rightarrow> ps | Some x \<Rightarrow> assign ps k x) obj guarded"

definition no_options :: RequestInit where
  "no_options = \<lparr> RequestInit.httpMethod = None, RequestInit.headers = None \<rparr>"

definition POST :: RequestInit where
  "POST = \<lparr> RequestInit.httpMethod = Some ''POST'', RequestInit.headers = None \<rparr>"

text \<open>
  The account id of an account-scoped path:
  \<open>accountId.startsWith('act_') ? accountId : `act_${accountId}`\<close>.
\<close>

definition act_id :: "string \<Rightarrow> string" where
  "act_id accountId = (if prefix ''act_'' accountId then accountId else ''act_'' @ accountId)"

text \<open>
  \<open>result.id\<close> of a create call, as the template literal of the follow-up path prints
  it; the read throws on \<open>undefined\<close> and \<open>null\<close>.
\<close>

definition result_id :: "json option \<Rightarrow> thrown + string" where
  "result_id result =
     (if result = None \<or> result = Some JNull then Inl TypeError
      else Inr (js_String (get_prop result ''id'')))"

subsection \<open>Ad accounts and campaigns\<close>

definition listAdAccounts_params :: "ListParams option \<Rightarrow> (string \<times> param) list" where
  "listAdAccounts_params params =
     [(''fields'', PString (or_string (Option.bind params fields') DEFAULT_AD_ACCOUNT_FIELDS)),
      (''limit'', PNumber (or_number (Option.bind params limit) 25)),
      (''after'', opt_string (Option.bind params after)),
      (''before'', opt_string (Option.bind params before))]"

definition listAdAccounts :: "server \<Rightarrow> MetaAdsClientImpl \<Rightarrow> ListParams option \<Rightarrow> (json option) io" where
  "listAdAccounts srv this params =
     request srv this ''/me/adaccounts'' no_options (Some (listAdAccounts_params params))"

definition getAdAccount :: "server \<Rightarrow> MetaAdsClientImpl \<Rightarrow> string \<Rightarrow> string option \<Rightarrow> (json option) io" where
  "getAdAccount srv this accountId flds =
     request srv this (''/'' @ act_id accountId) no_options
       (Some [(''fields'', PString (or_string flds DEFAULT_AD_ACCOUNT_FIELDS))])"

definition listCampaigns_params :: "ListParams option \<Rightarrow> (string \<times> param) list" where
  "listCampaigns_params params =
     [(''fields'', PString (or_string (Option.bind params fields') DEFAULT_CAMPAIGN_FIELDS)),
      (''limit'', PNumber (or_number (Option.bind params limit) 25)),
      (''after'', opt_string (Option.bind params after)),
      (''before'', opt_string (Option.bind params before)),
      (''effective_status'', opt_array (Option.bind params effectiveStatus))]"

definition listCampaigns ::
  "server \<Rightarrow> MetaAdsClientImpl \<Rightarrow> string \<Rightarrow> ListParams option \<Rightarrow> (json option) io" where
  "listCampaigns srv this accountId params =
     request srv this (''/'' @ act_id accountId @ ''/campaigns'') no_options
       (Some (listCampaigns_params params))"

definition getCampaign :: "server \<Rightarrow> MetaAdsClientImpl \<Rightarrow> string \<Rightarrow> string option \<Rightarrow> (json option) io" where
  "getCampaign srv this campaign_id flds =
     request srv this (''/'' @ campaign_id) no_options
       (Some [(''fields'', PString (or_string flds DEFAULT_CAMPAIGN_FIELDS))])"

definition createCampaign_params :: "CampaignCreateInput \<Rightarrow> (string \<times> param) list" where
  "createCampaign_params input =
     assign_each
       [(''name'', PString (CampaignCreateInput.name input)),
        (''objective'', PString (objective input)),
        (''status'',
           PString (case CampaignCreateInput.status input of
                      None \<Rightarrow> ''PAUSED'' | Some s \<Rightarrow> CampaignStatus_string s)),
        (''special_ad_categories'',
           PArray (case special_ad_categories input of
                     None \<Rightarrow> [''NONE''] | Some cs \<Rightarrow> map SpecialAdCategory_string cs))]
       [(''daily_budget'', map_option PNumber (truthy_number (CampaignCreateInput.daily_budget input))),
        (''lifetime_budget'', map_option PNumber (truthy_number (CampaignCreateInput.lifetime_budget input))),
        (''bid_strategy'', map_option (PString \<circ> BidStrategy_string) (CampaignCreateInput.bid_strategy input)),
        (''spend_cap'', map_option PNumber (truthy_number (CampaignCreateInput.spend_cap input))),
        (''buying_type'', map_option (PString \<circ> BuyingType_string) (buying_type input)),
        (''start_time'', map_option PString (truthy_string (CampaignCreateInput.start_time input))),
        (''stop_time'', map_option PString (truthy_string (CampaignCreateInput.stop_time input))),
        (''promoted_object'', map_option (PString \<circ> JSON_stringify) (promoted_object input))]"

definition createCampaign ::
  "server \<Rightarrow> MetaAdsClientImpl \<Rightarrow> string \<Rightarrow> CampaignCreateInput \<Rightarrow> (json option) io" where
  "createCampaign srv this accountId input sent =
     (case request srv this (''/'' @ act_id accountId @ ''/campaigns'') POST
             (Some (createCampaign_params input)) sent of
        (Inl e, sent') \<Rightarrow> (Inl e, sent')
      | (Inr result, sent') \<Rightarrow>
          (case result_id result of
             Inl e \<Rightarrow> (Inl e, sent')
           | Inr new_id \<Rightarrow> getCampaign srv this new_id None sent'))"

definition updateCampaign_params :: "CampaignUpdateInput \<Rightarrow> (string \<times> param option) list" where
  "updateCampaign_params input =
     [(''name'', map_option PString (CampaignUpdateInput.name input)),
      (''status'', map_option (PString \<circ> CampaignStatus_string) (CampaignUpdateInput.status input)),
      (''daily_budget'', map_option PNumber (CampaignUpdateInput.daily_budget input)),
      (''lifetime_budget'', map_option PNumber (CampaignUpdateInput.lifetime_budget input)),
      (''bid_strategy'', map_option (PString \<circ> BidStrategy_string) (CampaignUpdateInput.bid_strategy input)),
      (''spend_cap'', map_option PNumber (CampaignUpdateInput.spend_cap input)),
      (''start_time'', map_option PString (CampaignUpdateInput.start_time input)),
      (''stop_time'', map_option PString (CampaignUpdateInput.stop_time input))]"

definition updateCampaign ::
  "server \<Rightarrow> MetaAdsClientImpl \<Rightarrow> string \<Rightarrow> CampaignUpdateInput \<Rightarrow> (json option) io" where
  "updateCampaign srv this campaign_id input sent =
     (case request srv this (''/'' @ campaign_id) POST
             (Some (assign_each [] (updateCampaign_params input))) sent of
        (Inl e, sent') \<Rightarrow> (Inl e, sent')
      | (Inr result, sent') \<Rightarrow> getCampaign srv this campaign_id None sent')"

subsection \<open>Ad sets\<close>

definition listAdSets_params :: "ListParams option \<Rightarrow> (string \<times> param) list" where
  "listAdSets_params params =
     assign_each
       [(''fields'', PString (or_string (Option.bind params fields') DEFAULT_ADSET_FIELDS)),
        (''limit'', PNumber (or_number (Option.bind params limit) 25)),
        (''after'', opt_string (Option.bind params after)),
        (''before'', opt_string (Option.bind params before)),
        (''effective_status'', opt_array (Option.bind params effectiveStatus))]
       [(''filtering'',
           map_option
             (\<lambda>v. PString (JSON_stringify
                (JArr [JObj [(''field'', JStr ''campaign.id''), (''operator'', JStr ''EQUAL''),
                             (''value'', JStr v)]])))
             (truthy_string (Option.bind params campaignId)))]"

definition listAdSets ::
  "server \<Rightarrow> MetaAdsClientImpl \<Rightarrow> string \<Rightarrow> ListParams option \<Rightarrow> (json option) io" where
  "listAdSets srv this accountId params =
     request srv this (''/'' @ act_id accountId @ ''/adsets'') no_options
       (Some (listAdSets_params params))"

definition getAdSet :: "server \<Rightarrow> MetaAdsClientImpl \<Rightarrow> string \<Rightarrow> string option \<Rightarrow> (json option) io" where
  "getAdSet srv this adset_id flds =
     request srv this (''/'' @ adset_id) no_options
       (Some [(''fields'', PString (or_string flds DEFAULT_ADSET_FIELDS))])"

definition updateAdSet_params :: "AdSetUpdateInput \<Rightarrow> (string \<times> param option) list" where
  "updateAdSet_params input =
     [(''name'', map_option PString (AdSetUpdateInput.name input)),
      (''status'', map_option (PString \<circ> CampaignStatus_string) (AdSetUpdateInput.status input)),
      (''targeting'', map_option (PString \<circ> JSON_stringify) (targeting input)),
      (''bid_amount'', map_option PNumber (bid_amount input)),
      (''bid_strategy'', map_option (PString \<circ> BidStrategy_string) (AdSetUpdateInput.bid_strategy input)),
      (''daily_budget'', map_option PNumber (AdSetUpdateInput.daily_budget input)),
      (''lifetime_budget'', map_option PNumber (AdSetUpdateInput.lifetime_budget input)),
      (''start_time'', map_option PString (AdSetUpdateInput.start_time input)),
      (''end_time'', map_option PString (end_time input)),
      (''optimization_goal'', map_option PString (optimization_goal input)),
      (''billing_event'', map_option PString (billing_event input))]"

definition updateAdSet ::
  "server \<Rightarrow> MetaAdsClientImpl \<Rightarrow> string \<Rightarrow> AdSetUpdateInput \<Rightarrow> (json option) io" where
  "updateAdSet srv this adset_id input sent =
     (case request srv this (''/'' @ adset_id) POST
             (Some (assign_each [] (updateAdSet_params input))) sent of
        (Inl e, sent') \<Rightarrow> (Inl e, sent')
      | (Inr result, sent') \<Rightarrow> getAdSet srv this adset_id None sent')"

subsection \<open>Ads\<close>

definition listAds_params :: "ListParams option \<Rightarrow> (string \<times> param) list" where
  "listAds_params params =
     assign_each
       [(''fields'', PString (or_string (Option.bind params fields') DEFAULT_AD_FIELDS)),
        (''limit'', PNumber (or_number (Option.bind params limit) 25)),
        (''after'', opt_string (Option.bind params after)),
        (''before'', opt_string (Option.bind params before)),
        (''effective_status'', opt_array (Option.bind params effectiveStatus))]
       [(''filtering'',
           map_option
             (\<lambda>v. PString (JSON_stringify
                (JArr [JObj [(''field'', JStr ''adset.id''), (''operator'', JStr ''EQUAL''),
                             (''value'', JStr v)]])))
             (truthy_string (Option.bind params adSetId)))]"

definition listAds ::
  "server \<Rightarrow> MetaAdsClientImpl \<Rightarrow> string \<Rightarrow> ListParams option \<Rightarrow> (json option) io" where
  "listAds srv this accountId params =
     request srv this (''/'' @ act_id accountId @ ''/ads'') no_options
       (Some (listAds_params params))"

definition getAd :: "server \<Rightarrow> MetaAdsClientImpl \<Rightarrow> string \<Rightarrow> string option \<Rightarrow> (json option) io" where
  "getAd srv this ad_id flds =
     request srv this (''/'' @ ad_id) no_options
       (Some [(''fields'', PString (or_string flds DEFAULT_AD_FIELDS))])"

definition updateAd_params :: "AdUpdateInput \<Rightarrow> (string \<times> param option) list" where
  "updateAd_params input =
     [(''name'', map_option PString (AdUpdateInput.name input)),
      (''status'', map_option (PString \<circ> CampaignStatus_string) (AdUpdateInput.status input)),
      (''creative'', map_option (PString \<circ> JSON_stringify) (creative input)),
      (''tracking_specs'', map_option (PString \<circ> JSON_stringify \<circ> JArr) (tracking_specs input))]"

definition updateAd ::
  "server \<Rightarrow> MetaAdsClientImpl \<Rightarrow> string \<Rightarrow> AdUpdateInput \<Rightarrow> (json option) io" where
  "updateAd srv this ad_id input sent =
     (case request srv this (''/'' @ ad_id) POST
             (Some (assign_each [] (updateAd_params input))) sent of
        (Inl e, sent') \<Rightarrow> (Inl e, sent')
      | (Inr result, sent') \<Rightarrow> getAd srv this ad_id None sent')"

subsection \<open>Creatives, images, videos\<close>

definition listAdCreatives_params :: "ListParams option \<Rightarrow> (string \<times> param) list" where
  "listAdCreatives_params params =
     [(''fields'', PString (or_string (Option.bind params fields') DEFAULT_CREATIVE_FIELDS)),
      (''limit'', PNumber (or_number (Option.bind params limit) 25)),
      (''after'', opt_string (Option.bind params after)),
      (''before'', opt_string (Option.bind params before))]"

definition listAdCreatives ::
  "server \<Rightarrow> MetaAdsClientImpl \<Rightarrow> string \<Rightarrow> ListParams option \<Rightarrow> (json option) io" where
  "listAdCreatives srv this accountId params =
     request srv this (''/'' @ act_id accountId @ ''/adcreatives'') no_options (Some (listAdCreatives_params params))"

definition listAdImages_params :: "ListParams option \<Rightarrow> (string \<times> param) list" where
  "listAdImages_params params =
     [(''fields'', PString (''id,account_id,hash,name,url,permalink_url,original_height,original_width,status,created_time'')),
      (''limit'', PNumber (or_number (Option.bind params limit) 25)),
      (''after'', opt_string (Option.bind params after)),
      (''before'', opt_string (Option.bind params before)),
      (''hashes'', opt_array (Option.bind params hashes))]"

definition listAdImages ::
  "server \<Rightarrow> MetaAdsClientImpl \<Rightarrow> string \<Rightarrow> ListParams option \<Rightarrow> (json option) io" where
  "listAdImages srv this accountId params =
     request srv this (''/'' @ act_id accountId @ ''/adimages'') no_options (Some (listAdImages_params params))"

definition listAdVideos_params :: "ListParams option \<Rightarrow> (string \<times> param) list" where
  "listAdVideos_params params =
     [(''fields'', PString (''id,title,description,picture,permalink_url,length,status,created_time,updated_time'')),
      (''limit'', PNumber (or_number (Option.bind params limit) 25)),
      (''after'', opt_string (Option.bind params after)),
      (''before'', opt_string (Option.bind params before))]"

definition listAdVideos ::
  "server \<Rightarrow> MetaAdsClientImpl \<Rightarrow> string \<Rightarrow> ListParams option \<Rightarrow> (json option) io" where
  "listAdVideos srv this accountId params =
     request srv this (''/'' @ act_id accountId @ ''/advideos'') no_options (Some (listAdVideos_params params))"

subsection \<open>Custom audiences\<close>

definition listCustomAudiences_params :: "ListParams option \<Rightarrow> (string \<times> param) list" where
  "listCustomAudiences_params params =
     [(''fields'', PString (or_string (Option.bind params fields') DEFAULT_AUDIENCE_FIELDS)),
      (''limit'', PNumber (or_number (Option.bind params limit) 25)),
      (''after'', opt_string (Option.bind params after)),
      (''before'', opt_string (Option.bind params before))]"

definition listCustomAudiences ::
  "server \<Rightarrow> MetaAdsClientImpl \<Rightarrow> string \<Rightarrow> ListParams option \<Rightarrow> (json option) io" where
  "listCustomAudiences srv this accountId params =
     request srv this (''/'' @ act_id accountId @ ''/customaudiences'') no_options (Some (listCustomAudiences_params params))"

definition getCustomAudience ::
  "server \<Rightarrow> MetaAdsClientImpl \<Rightarrow> string \<Rightarrow> string option \<Rightarrow> (json option) io" where
  "getCustomAudience srv this audience_id flds =
     request srv this (''/'' @ audience_id) no_options
       (Some [(''fields'', PString (or_string flds DEFAULT_AUDIENCE_FIELDS))])"

definition updateCustomAudience_params ::
  "CustomAudienceUpdateInput \<Rightarrow> (string \<times> param option) list" where
  "updateCustomAudience_params input =
     [(''name'', map_option PString (CustomAudienceUpdateInput.name input)),
      (''description'', map_option PString (description input)),
      (''opt_out_link'', map_option PString (opt_out_link input))]"

definition updateCustomAudience ::
  "server \<Rightarrow> MetaAdsClientImpl \<Rightarrow> string \<Rightarrow> CustomAudienceUpdateInput \<Rightarrow> (json option) io" where
  "updateCustomAudience srv this audience_id input sent =
     (case request srv this (''/'' @ audience_id) POST
             (Some (assign_each [] (updateCustomAudience_params input))) sent of
        (Inl e, sent') \<Rightarrow> (Inl e, sent')
      | (Inr result, sent') \<Rightarrow> getCustomAudience srv this audience_id None sent')"

subsection \<open>Pixels, catalogs, businesses\<close>

definition listPixels_params :: "ListParams option \<Rightarrow> (string \<times> param) list" where
  "listPixels_params params =
     [(''fields'', PString (or_string (Option.bind params fields') DEFAULT_PIXEL_FIELDS)),
      (''limit'', PNumber (or_number (Option.bind params limit) 25)),
      (''after'', opt_string (Option.bind params after)),
      (''before'', opt_string (Option.bind params before))]"

definition listPixels ::
  "server \<Rightarrow> MetaAdsClientImpl \<Rightarrow> string \<Rightarrow> ListParams option \<Rightarrow> (json option) io" where
  "listPixels srv this accountId params =
     request srv this (''/'' @ act_id accountId @ ''/adspixels'') no_options (Some (listPixels_params params))"

definition listProductCatalogs_params :: "ListParams option \<Rightarrow> (string \<times> param) list" where
  "listProductCatalogs_params params =
     [(''fields'', PString (or_string (Option.bind params fields') DEFAULT_CATALOG_FIELDS)),
      (''limit'', PNumber (or_number (Option.bind params limit) 25)),
      (''after'', opt_string (Option.bind params after)),
      (''before'', opt_string (Option.bind params before))]"

definition listProductCatalogs ::
  "server \<Rightarrow> MetaAdsClientImpl \<Rightarrow> string \<Rightarrow> ListParams option \<Rightarrow> (json option) io" where
  "listProductCatalogs srv this business_id params =
     request srv this (''/'' @ business_id @ ''/owned_product_catalogs'') no_options (Some (listProductCatalogs_params params))"

definition listProductSets_params :: "ListParams option \<Rightarrow> (string \<times> param) list" where
  "listProductSets_params params =
     [(''fields'', PString (''id,name,product_count,filter,retailer_id'')),
      (''limit'', PNumber (or_number (Option.bind params limit) 25)),
      (''after'', opt_string (Option.bind params after)),
      (''before'', opt_string (Option.bind params before))]"

definition listProductSets ::
  "server \<Rightarrow> MetaAdsClientImpl \<Rightarrow> string \<Rightarrow> ListParams option \<Rightarrow> (json option) io" where
  "listProductSets srv this catalog_id params =
     request srv this (''/'' @ catalog_id @ ''/product_sets'') no_options (Some (listProductSets_params params))"

definition getBusinesses_params :: "ListParams option \<Rightarrow> (string \<times> param) list" where
  "getBusinesses_params params =
     [(''fields'', PString (''id,name,created_time,link,primary_page,profile_picture_uri,verification_status,vertical'')),
      (''limit'', PNumber (or_number (Option.bind params limit) 25)),
      (''after'', opt_string (Option.bind params after)),
      (''before'', opt_string (Option.bind params before))]"

definition getBusinesses ::
  "server \<Rightarrow> MetaAdsClientImpl \<Rightarrow> ListParams option \<Rightarrow> (json option) io" where
  "getBusinesses srv this params =
     request srv this (''/me/businesses'') no_options (Some (getBusinesses_params params))"

definition listBusinessAdAccounts_params :: "ListParams option \<Rightarrow> (string \<times> param) list" where
  "listBusinessAdAccounts_params params =
     [(''fields'', PString (DEFAULT_AD_ACCOUNT_FIELDS)),
      (''limit'', PNumber (or_number (Option.bind params limit) 25)),
      (''after'', opt_string (Option.bind params after)),
      (''before'', opt_string (Option.bind params before))]"

definition listBusinessAdAccounts ::
  "server \<Rightarrow> MetaAdsClientImpl \<Rightarrow> string \<Rightarrow> ListParams option \<Rightarrow> (json option) io" where
  "listBusinessAdAccounts srv this business_id params =
     request srv this (''/'' @ business_id @ ''/owned_ad_accounts'') no_options (Some (listBusinessAdAccounts_params params))"

section \<open>Notions used to state the properties\<close>

text \<open>
  The value a defined parameter is serialized to: an array is JSON-encoded, a scalar is
  stringified.
\<close>

definition param_value :: "param \<Rightarrow> string" where
  "param_value v =
     (case v of PArray xs \<Rightarrow> JSON_stringify (JArr (map JStr xs)) | _ \<Rightarrow> param_String v)"

text \<open>The fields that are supplied, among optional fields given with their keys.\<close>

definition supplied :: "(string \<times> 'a option) list \<Rightarrow> (string \<times> 'a) list" where
  "supplied guarded =
     concat (map (\<lambda>(k, v). case v of None \<Rightarrow> [] | Some x \<Rightarrow> [(k, x)]) guarded)"

text \<open>
  The pair a field of an input adds to a query when it is supplied: its key with the
  value as a string. A field that is not supplied adds nothing.
\<close>

definition sent_field :: "string \<Rightarrow> 'a option \<Rightarrow> ('a \<Rightarrow> string) \<Rightarrow> (string \<times> string) list" where
  "sent_field k v to_string = (case v of None \<Rightarrow> [] | Some x \<Rightarrow> [(k, to_string x)])"

text \<open>The update inputs with no field supplied.\<close>

definition no_campaign_update :: CampaignUpdateInput where
  "no_campaign_update =
     \<lparr> CampaignUpdateInput.name = None,
       CampaignUpdateInput.status = None,
       CampaignUpdateInput.daily_budget = None,
       CampaignUpdateInput.lifetime_budget = None,
       CampaignUpdateInput.bid_strategy = None,
       CampaignUpdateInput.spend_cap = None,
       CampaignUpdateInput.start_time = None,
       CampaignUpdateInput.stop_time = None \<rparr>"

definition no_adset_update :: AdSetUpdateInput where
  "no_adset_update =
     \<lparr> AdSetUpdateInput.name = None,
       AdSetUpdateInput.status = None,
       AdSetUpdateInput.targeting = None,
       AdSetUpdateInput.bid_amount = None,
       AdSetUpdateInput.bid_strategy = None,
       AdSetUpdateInput.daily_budget = None,
       AdSetUpdateInput.lifetime_budget = None,
       AdSetUpdateInput.start_time = None,
       AdSetUpdateInput.end_time = None,
       AdSetUpdateInput.optimization_goal = None,
       AdSetUpdateInput.billing_event = None \<rparr>"

definition no_ad_update :: AdUpdateInput where
  "no_ad_update =
     \<lparr> AdUpdateInput.name = None,
       AdUpdateInput.status = None,
       AdUpdateInput.creative = None,
       AdUpdateInput.tracking_specs = None \<rparr>"

definition no_audience_update :: CustomAudienceUpdateInput where
  "no_audience_update =
     \<lparr> CustomAudienceUpdateInput.name = None,
       CustomAudienceUpdateInput.description = None,
       CustomAudienceUpdateInput.opt_out_link = None \<rparr>"

text \<open>\<open>text.includes(needle)\<close>: the needle occurs in the text.\<close>

fun String_includes :: "string \<Rightarrow> string \<Rightarrow> bool" where
  "String_includes [] needle = (needle = [])"
| "String_includes (c # cs) needle = (prefix needle (c # cs) \<or> String_includes cs needle)"

text \<open>The first request an operation sends, when it sends one.\<close>

definition first_sent :: "'a io \<Rightarrow> http_request list \<Rightarrow> http_request option" where
  "first_sent operation sent =
     (case drop (length sent) (snd (operation sent)) of [] \<Rightarrow> None | r # _ \<Rightarrow> Some r)"

text \<open>
  The parameter objects of the thirteen list operations, the operations that take
  \<open>PaginationParams\<close>.
\<close>

definition list_params_builders :: "(ListParams option \<Rightarrow> (string \<times> param) list) list" where
  "list_params_builders =
     [listAdAccounts_params, listCampaigns_params, listAdSets_params, listAds_params,
      listAdCreatives_params, listAdImages_params, listAdVideos_params,
      listCustomAudiences_params, listPixels_params, listProductCatalogs_params,
      listProductSets_params, getBusinesses_params, listBusinessAdAccounts_params]"

section \<open>Example inputs\<close>

text \<open>The error body \<open>{error: {message: "Invalid parameter", code: n}}\<close>.\<close>

definition error_body :: "int \<Rightarrow> (string \<times> json) list" where
  "error_body n = [(''error'', JObj [(''message'', JStr ''Invalid parameter''), (''code'', JNum n)])]"

text \<open>
  An upstream that answers every request with the status 429, the given \<open>Retry-After\<close>
  header and the given body, and one that answers every request with 200 and the body
  \<open>{"id": "120330"}\<close>.
\<close>

definition upstream_429 :: "string option \<Rightarrow> json option \<Rightarrow> server" where
  "upstream_429 retryAfter b =
     (\<lambda>sent req. Some \<lparr> response.status = 429,
        headers_get = (\<lambda>h. if h = ''Retry-After'' then retryAfter else None), json = b \<rparr>)"

definition upstream_created :: server where
  "upstream_created =
     (\<lambda>sent req. Some \<lparr> response.status = 200, headers_get = (\<lambda>h. None),
        json = Some (JObj [(''id'', JStr ''120330'')]) \<rparr>)"

text \<open>Credentials without a token, and a client bound to the token \<open>TOKEN\<close>.\<close>

definition empty_token :: TenantCredentials where
  "empty_token =
     \<lparr> accessToken = [], adAccountId = None, businessId = None, appId = None,
       appSecret = None, TenantCredentials.apiVersion = None \<rparr>"

definition TOKEN_client :: MetaAdsClientImpl where
  "TOKEN_client = new_MetaAdsClientImpl
     \<lparr> accessToken = ''TOKEN'', adAccountId = None, businessId = None, appId = None,
       appSecret = None, TenantCredentials.apiVersion = None \<rparr>"

text \<open>
  A campaign with a name and an objective and nothing else; an update that sets the
  daily budget only; a parameter object with an \<open>undefined\<close> entry and falsy entries;
  list parameters with the page size 0.
\<close>

definition spring_sale :: CampaignCreateInput where
  "spring_sale =
     \<lparr> CampaignCreateInput.name = ''Spring Sale'', objective = ''OUTCOME_SALES'',
       CampaignCreateInput.status = None, special_ad_categories = None,
       CampaignCreateInput.daily_budget = None, CampaignCreateInput.lifetime_budget = None,
       CampaignCreateInput.bid_strategy = None, CampaignCreateInput.spend_cap = None,
       buying_type = None, CampaignCreateInput.start_time = None,
       CampaignCreateInput.stop_time = None, promoted_object = None \<rparr>"

definition budget_only :: CampaignUpdateInput where
  "budget_only =
     \<lparr> CampaignUpdateInput.name = None, CampaignUpdateInput.status = None,
       CampaignUpdateInput.daily_budget = Some 5000, CampaignUpdateInput.lifetime_budget = None,
       CampaignUpdateInput.bid_strategy = None, CampaignUpdateInput.spend_cap = None,
       CampaignUpdateInput.start_time = None, CampaignUpdateInput.stop_time = None \<rparr>"

definition example_params :: "(string \<times> param) list" where
  "example_params =
     [(''limit'', PNumber 0), (''after'', PUndefined), (''q'', PString []),
      (''summary'', PBoolean False), (''effective_status'', PArray [''ACTIVE'', ''PAUSED''])]"

definition zero_limit :: ListParams where
  "zero_limit =
     \<lparr> limit = Some 0, after = None, before = None, fields' = None, effectiveStatus = None,
       campaignId = Some ''123'', adSetId = None, hashes = None \<rparr>"

section \<open>Verified properties\<close>

subsection \<open>Auxiliary facts\<close>

lemma decimal_not_Nil: "decimal n \<noteq> []"
  by (subst decimal.simps) simp

lemma Number_toString_not_Nil: "Number_toString n \<noteq> []"
  by (simp add: Number_toString_def decimal_not_Nil)

lemmas error_ctor_defs =
  new_MetaAdsApiError_def new_RateLimitError_def new_AuthenticationError_def
  new_PermissionError_def new_ValidationError_def

lemma error_body_error:
  "truthy (map_of (error_body n) ''error'')"
  "get_prop (map_of (error_body n) ''error'') ''code'' = Some (JNum n)"
  by (simp_all add: error_body_def)

lemmas eval_defs =
  request_init_def request_searchParams_def getAuthParams_def add_param_def
  URLSearchParams_toString_def urlencode_def urlencode_char_def utf8_encode_def
  percent_byte_def hex_upper_def hex_lower_def QuoteJSONString_def QuoteJSONChar_def
  Number_toString_def decimal.simps new_MetaAdsClientImpl_def META_API_BASE_URL_def
  DEFAULT_API_VERSION_def act_id_def POST_def no_options_def assign_each_def Let_def

lemma TOKEN_client_fields:
  "accessToken (credentials TOKEN_client) = ''TOKEN''"
  "baseUrl TOKEN_client = ''https://graph.facebook.com''"
  "MetaAdsClientImpl.apiVersion TOKEN_client = ''v21.0''"
  by (simp_all add: TOKEN_client_def new_MetaAdsClientImpl_def META_API_BASE_URL_def
      DEFAULT_API_VERSION_def)

subsection \<open>The query of a request\<close>

lemma add_param_eq:
  "add_param sp (k, v) = (if v \<noteq> PUndefined then URLSearchParams_set sp k (param_value v) else sp)"
  by (cases v) (simp_all add: add_param_def param_value_def)

lemma URLSearchParams_set_fresh:
  "k \<notin> fst ` set sp \<Longrightarrow> URLSearchParams_set sp k v = sp @ [(k, v)]"
  by (induction sp) auto

lemma foldl_add_param_fresh:
  "distinct (map fst entries) \<Longrightarrow> fst ` set entries \<inter> fst ` set sp = {} \<Longrightarrow>
   foldl add_param sp entries =
     sp @ map (\<lambda>(k, v). (k, param_value v)) (filter (\<lambda>(k, v). v \<noteq> PUndefined) entries)"
proof (induction entries arbitrary: sp)
  case Nil
  then show ?case by simp
next
  case (Cons e entries)
  obtain k v where e: "e = (k, v)" by (cases e)
  from Cons.prems have fresh: "k \<notin> fst ` set sp" and d: "distinct (map fst entries)"
    and nk: "k \<notin> fst ` set entries" and disj: "fst ` set entries \<inter> fst ` set sp = {}"
    by (auto simp: e)
  show ?case
  proof (cases "v = PUndefined")
    case True
    with Cons.IH [OF d disj] show ?thesis by (simp add: e add_param_eq)
  next
    case False
    have "fst ` set entries \<inter> fst ` set (sp @ [(k, param_value v)]) = {}"
      using disj nk by auto
    from Cons.IH [OF d this] False fresh show ?thesis
      by (simp add: e add_param_eq URLSearchParams_set_fresh)
  qed
qed

lemma request_query:
  assumes "distinct (map fst entries)" and "''access_token'' \<notin> fst ` set entries"
  shows "request_searchParams this (Some entries) =
           (''access_token'', accessToken (credentials this))
           # map (\<lambda>(k, v). (k, param_value v)) (filter (\<lambda>(k, v). v \<noteq> PUndefined) entries)"
  using assms foldl_add_param_fresh [of entries "getAuthParams this"]
  by (simp add: request_searchParams_def getAuthParams_def)

lemma request_query_lookup:
  assumes "distinct (map fst entries)" and "''access_token'' \<notin> fst ` set entries"
    and "(k, v) \<in> set entries" and "v \<noteq> PUndefined"
  shows "map_of (request_searchParams this (Some entries)) k = Some (param_value v)"
proof -
  let ?defined = "filter (\<lambda>(k, v). v \<noteq> PUndefined) entries"
  have d: "distinct (map fst ?defined)"
    using assms(1) by (simp add: distinct_map_filter)
  have m: "(k, v) \<in> set ?defined"
    using assms(3,4) by simp
  have "map_of ?defined k = Some v"
    using d m by simp
  then have "map_of (map (\<lambda>(k, v). (k, param_value v)) ?defined) k = Some (param_value v)"
    by (simp add: map_of_map)
  moreover have "k \<noteq> ''access_token''"
    using assms(2,3) by force
  ultimately show ?thesis
    by (simp add: request_query [OF assms(1,2)])
qed

lemma map_of_filter_other:
  "k \<noteq> k' \<Longrightarrow> map_of (filter (\<lambda>(a, b). a \<noteq> k') sp) k = map_of sp k"
  by (induction sp) auto

lemma map_of_URLSearchParams_set_other:
  "k \<noteq> k' \<Longrightarrow> map_of (URLSearchParams_set sp k' v) k = map_of sp k"
  by (induction sp) (auto simp: map_of_filter_other)

lemma map_of_URLSearchParams_set_same:
  "map_of (URLSearchParams_set sp k v) k = Some v"
  by (induction sp) auto

lemma map_of_foldl_add_param_other:
  "k \<notin> fst ` set entries \<Longrightarrow> map_of (foldl add_param sp entries) k = map_of sp k"
proof (induction entries arbitrary: sp)
  case Nil
  then show ?case by simp
next
  case (Cons e entries)
  obtain k' v where e: "e = (k', v)" by (cases e)
  with Cons.prems have "k \<noteq> k'" and "k \<notin> fst ` set entries" by auto
  with Cons.IH [of "add_param sp e"] show ?case
    by (simp add: e add_param_eq map_of_URLSearchParams_set_other)
qed

lemma map_of_foldl_add_param_defined:
  "distinct (map fst entries) \<Longrightarrow> (k, v) \<in> set entries \<Longrightarrow> v \<noteq> PUndefined \<Longrightarrow>
   map_of (foldl add_param sp entries) k = Some (param_value v)"
proof (induction entries arbitrary: sp)
  case Nil
  then show ?case by simp
next
  case (Cons e entries)
  show ?case
  proof (cases "e = (k, v)")
    case True
    with Cons.prems have "k \<notin> fst ` set entries" by auto
    then have "map_of (foldl add_param (add_param sp e) entries) k = map_of (add_param sp e) k"
      by (rule map_of_foldl_add_param_other)
    with True Cons.prems(3) show ?thesis
      by (simp add: add_param_eq map_of_URLSearchParams_set_same)
  next
    case False
    with Cons.prems have "(k, v) \<in> set entries" and "distinct (map fst entries)" by auto
    with Cons.IH [of "add_param sp e"] Cons.prems(3) show ?thesis by simp
  qed
qed

lemma keys_filter_other:
  "fst ` set (filter (\<lambda>(a, b). a \<noteq> k) sp) = fst ` set sp - {k}"
  by (induction sp) auto

lemma keys_URLSearchParams_set:
  "fst ` set (URLSearchParams_set sp k v) = insert k (fst ` set sp)"
proof (induction sp)
  case Nil
  then show ?case by simp
next
  case (Cons e sp)
  obtain a b where e: "e = (a, b)" by (cases e)
  show ?case
  proof (cases "a = k")
    case True
    then show ?thesis by (auto simp: e keys_filter_other)
  next
    case False
    with Cons.IH show ?thesis by (auto simp: e)
  qed
qed

lemma keys_foldl_add_param:
  "fst ` set (foldl add_param sp entries) =
     fst ` set sp \<union> {k. \<exists>v. (k, v) \<in> set entries \<and> v \<noteq> PUndefined}"
proof (induction entries arbitrary: sp)
  case Nil
  then show ?case by simp
next
  case (Cons e entries)
  obtain k v where e: "e = (k, v)" by (cases e)
  show ?case
    unfolding foldl_Cons Cons.IH
    by (auto simp: e add_param_eq keys_URLSearchParams_set)
qed

lemma request_query_token:
  "''access_token'' \<notin> fst ` set entries \<Longrightarrow>
   map_of (request_searchParams this (Some entries)) ''access_token''
     = Some (accessToken (credentials this))"
  by (simp add: request_searchParams_def getAuthParams_def map_of_foldl_add_param_other)

lemma distinct_request_query:
  assumes "distinct (map fst entries)" and "''access_token'' \<notin> fst ` set entries"
  shows "distinct (map fst (request_searchParams this (Some entries)))"
proof -
  let ?defined = "filter (\<lambda>(k, v). v \<noteq> PUndefined) entries"
  have m: "map fst (map (\<lambda>(k, v). (k, param_value v)) ?defined) = map fst ?defined"
    by (induction entries) auto
  have "distinct (map fst ?defined)"
    using assms(1) by (simp add: distinct_map_filter)
  moreover have "''access_token'' \<notin> fst ` set ?defined"
    using assms(2) by auto
  ultimately show ?thesis
    unfolding request_query [OF assms] by (simp add: m del: map_map)
qed

subsection \<open>The requests an operation sends\<close>

lemma request_sent:
  "snd (request srv this endpoint options params sent) =
     sent @ [request_init this endpoint options params]"
  by (simp add: request_def fetch_def Let_def split: option.splits)

lemma first_sentI:
  "snd (operation sent) = sent @ r # rest \<Longrightarrow> first_sent operation sent = Some r"
  by (simp add: first_sent_def)

lemma first_sent_request:
  "first_sent (request srv this endpoint options params) sent =
     Some (request_init this endpoint options params)"
  by (rule first_sentI [where rest = "[]"]) (simp add: request_sent)

lemma first_sent_follow_up:
  assumes "\<And>sent. operation sent =
      (case request srv this endpoint options params sent of
         (Inl e, sent') \<Rightarrow> (Inl e, sent')
       | (Inr result, sent') \<Rightarrow> follow result sent')"
    and "\<And>result s. \<exists>rest. snd (follow result s) = s @ rest"
  shows "first_sent operation sent = Some (request_init this endpoint options params)"
proof -
  let ?r = "request_init this endpoint options params"
  obtain res where req: "request srv this endpoint options params sent = (res, sent @ [?r])"
    using request_sent [of srv this endpoint options params sent]
    by (cases "request srv this endpoint options params sent") simp
  show ?thesis
  proof (cases res)
    case (Inl e)
    with req assms(1) have "snd (operation sent) = sent @ ?r # []" by simp
    then show ?thesis by (rule first_sentI)
  next
    case (Inr result)
    from assms(2) obtain rest where "snd (follow result (sent @ [?r])) = (sent @ [?r]) @ rest"
      by blast
    with Inr req assms(1) have "snd (operation sent) = sent @ ?r # rest" by simp
    then show ?thesis by (rule first_sentI)
  qed
qed

lemma postForm_sent:
  "snd (postForm srv this endpoint formData sent) =
     sent @ [\<lparr> url = baseUrl this @ ''/'' @ MetaAdsClientImpl.apiVersion this @ endpoint,
               http_request.httpMethod = Some ''POST'',
               http_request.headers = [],
               body = Some (formData @ [(''access_token'', accessToken (credentials this))]) \<rparr>]"
  by (simp add: postForm_def fetch_def Let_def split: option.splits)

lemma request_rate_limited:
  "srv sent (request_init this endpoint options params) = Some r \<Longrightarrow> response.status r = 429 \<Longrightarrow>
   fst (request srv this endpoint options params sent) =
     Inl (ApiError (new_RateLimitError ''Rate limit exceeded''
            (case headers_get r ''Retry-After'' of
               None \<Rightarrow> Num 60
             | Some h \<Rightarrow> if h \<noteq> [] then parseInt h else Num 60)
            None))"
  by (simp add: request_def fetch_def)

subsection \<open>Guarded assignments\<close>

lemma assign_fresh: "k \<notin> fst ` set ps \<Longrightarrow> assign ps k v = ps @ [(k, v)]"
  by (induction ps) auto

lemma supplied_Nil: "supplied [] = []"
  by (simp add: supplied_def)

lemma supplied_Cons:
  "supplied ((k, v) # guarded) = (case v of None \<Rightarrow> [] | Some x \<Rightarrow> [(k, x)]) @ supplied guarded"
  by (simp add: supplied_def)

lemma set_supplied: "set (supplied guarded) = {(k, x). (k, Some x) \<in> set guarded}"
proof (induction guarded)
  case Nil
  then show ?case by (simp add: supplied_Nil)
next
  case (Cons e guarded)
  obtain k v where e: "e = (k, v)" by (cases e)
  with Cons show ?case
    by (cases v) (auto simp: supplied_Cons)
qed

lemma fst_supplied: "fst ` set (supplied guarded) \<subseteq> fst ` set guarded"
  by (force simp: set_supplied)

lemma snd_supplied: "v \<in> snd ` set (supplied guarded) \<Longrightarrow> Some v \<in> snd ` set guarded"
  by (force simp: set_supplied)

lemma distinct_supplied: "distinct (map fst guarded) \<Longrightarrow> distinct (map fst (supplied guarded))"
proof (induction guarded)
  case Nil
  then show ?case by (simp add: supplied_Nil)
next
  case (Cons e guarded)
  obtain k v where e: "e = (k, v)" by (cases e)
  from Cons.prems have "k \<notin> fst ` set (supplied guarded)"
    using fst_supplied [of guarded] by (auto simp: e)
  with Cons show ?case
    by (cases v) (simp_all add: e supplied_Cons)
qed

lemma assign_each_fresh:
  "distinct (map fst guarded) \<Longrightarrow> fst ` set guarded \<inter> fst ` set obj = {} \<Longrightarrow>
   assign_each obj guarded = obj @ supplied guarded"
proof (induction guarded arbitrary: obj)
  case Nil
  then show ?case by (simp add: assign_each_def supplied_Nil)
next
  case (Cons e guarded)
  obtain k v where e: "e = (k, v)" by (cases e)
  from Cons.prems have fresh: "k \<notin> fst ` set obj" and d: "distinct (map fst guarded)"
    and nk: "k \<notin> fst ` set guarded" and disj: "fst ` set guarded \<inter> fst ` set obj = {}"
    by (auto simp: e)
  show ?case
  proof (cases v)
    case None
    with Cons.IH [OF d disj] show ?thesis
      by (simp add: e assign_each_def supplied_Cons)
  next
    case (Some x)
    have "fst ` set guarded \<inter> fst ` set (obj @ [(k, x)]) = {}"
      using disj nk by auto
    from Cons.IH [OF d this] Some fresh show ?thesis
      by (simp add: e assign_each_def supplied_Cons assign_fresh)
  qed
qed

lemma update_query:
  assumes "distinct (map fst guarded)" and "''access_token'' \<notin> fst ` set guarded"
    and "Some PUndefined \<notin> snd ` set guarded"
  shows "request_searchParams this (Some (assign_each [] guarded)) =
           (''access_token'', accessToken (credentials this))
           # map (\<lambda>(k, v). (k, param_value v)) (supplied guarded)"
proof -
  have a: "assign_each [] guarded = supplied guarded"
    using assign_each_fresh [of guarded "[]"] assms(1) by simp
  have d: "distinct (map fst (supplied guarded))"
    using assms(1) by (rule distinct_supplied)
  have t: "''access_token'' \<notin> fst ` set (supplied guarded)"
    using assms(2) fst_supplied [of guarded] by blast
  have "\<forall>e \<in> set (supplied guarded). snd e \<noteq> PUndefined"
    using assms(3) snd_supplied [of PUndefined guarded] by force
  then have f: "filter (\<lambda>(k, v). v \<noteq> PUndefined) (supplied guarded) = supplied guarded"
    by (auto simp: filter_id_conv)
  show ?thesis
    by (simp add: a request_query [OF d t] f)
qed

lemma Some_PUndefined_neq [simp]:
  "Some PUndefined \<noteq> map_option PString s"
  "Some PUndefined \<noteq> map_option PNumber n"
  "Some PUndefined \<noteq> map_option (PString \<circ> f) x"
  "Some PUndefined \<noteq> map_option (PString \<circ> g \<circ> h) y"
proof -
  show "Some PUndefined \<noteq> map_option PString s" by (cases s) simp_all
  show "Some PUndefined \<noteq> map_option PNumber n" by (cases n) simp_all
  show "Some PUndefined \<noteq> map_option (PString \<circ> f) x" by (cases x) simp_all
  show "Some PUndefined \<noteq> map_option (PString \<circ> g \<circ> h) y" by (cases y) simp_all
qed

subsection \<open>The operations\<close>

lemma keys_createCampaign_params:
  "distinct (map fst (createCampaign_params input))"
  "''access_token'' \<notin> fst ` set (createCampaign_params input)"
  "(''status'', PString (case CampaignCreateInput.status input of
        None \<Rightarrow> ''PAUSED'' | Some s \<Rightarrow> CampaignStatus_string s)) \<in> set (createCampaign_params input)"
  "(''special_ad_categories'', PArray (case special_ad_categories input of
        None \<Rightarrow> [''NONE''] | Some cs \<Rightarrow> map SpecialAdCategory_string cs))
     \<in> set (createCampaign_params input)"
proof -
  let ?opt = "[(''daily_budget'', map_option PNumber (truthy_number (CampaignCreateInput.daily_budget input))),
        (''lifetime_budget'', map_option PNumber (truthy_number (CampaignCreateInput.lifetime_budget input))),
        (''bid_strategy'', map_option (PString \<circ> BidStrategy_string) (CampaignCreateInput.bid_strategy input)),
        (''spend_cap'', map_option PNumber (truthy_number (CampaignCreateInput.spend_cap input))),
        (''buying_type'', map_option (PString \<circ> BuyingType_string) (buying_type input)),
        (''start_time'', map_option PString (truthy_string (CampaignCreateInput.start_time input))),
        (''stop_time'', map_option PString (truthy_string (CampaignCreateInput.stop_time input))),
        (''promoted_object'', map_option (PString \<circ> JSON_stringify) (promoted_object input))]"
  let ?lit = "[(''name'', PString (CampaignCreateInput.name input)),
        (''objective'', PString (objective input)),
        (''status'',
           PString (case CampaignCreateInput.status input of
                      None \<Rightarrow> ''PAUSED'' | Some s \<Rightarrow> CampaignStatus_string s)),
        (''special_ad_categories'',
           PArray (case special_ad_categories input of
                     None \<Rightarrow> [''NONE''] | Some cs \<Rightarrow> map SpecialAdCategory_string cs))]"
  have e: "createCampaign_params input = ?lit @ supplied ?opt"
    unfolding createCampaign_params_def by (rule assign_each_fresh) simp_all
  have d: "distinct (map fst (supplied ?opt))"
    by (rule distinct_supplied) simp
  have k: "fst ` set (supplied ?opt) \<subseteq> fst ` set ?opt"
    by (rule fst_supplied)
  show "distinct (map fst (createCampaign_params input))"
    unfolding e using d k by auto
  show "''access_token'' \<notin> fst ` set (createCampaign_params input)"
    unfolding e using k by auto
  show "(''status'', PString (case CampaignCreateInput.status input of
        None \<Rightarrow> ''PAUSED'' | Some s \<Rightarrow> CampaignStatus_string s)) \<in> set (createCampaign_params input)"
    unfolding e by simp
  show "(''special_ad_categories'', PArray (case special_ad_categories input of
        None \<Rightarrow> [''NONE''] | Some cs \<Rightarrow> map SpecialAdCategory_string cs))
     \<in> set (createCampaign_params input)"
    unfolding e by simp
qed

lemma sent_getCampaign:
  "\<exists>rest. snd (getCampaign srv this c flds s) = s @ rest"
  by (simp add: getCampaign_def request_sent)

lemma sent_get:
  "\<exists>rest. snd (getAdSet srv this c flds s) = s @ rest"
  "\<exists>rest. snd (getAd srv this c flds s) = s @ rest"
  "\<exists>rest. snd (getCustomAudience srv this c flds s) = s @ rest"
  by (simp_all add: getAdSet_def getAd_def getCustomAudience_def request_sent)

lemma first_sent_createCampaign:
  "first_sent (createCampaign srv this accountId input) sent
     = Some (request_init this (''/'' @ act_id accountId @ ''/campaigns'') POST
               (Some (createCampaign_params input)))"
proof (rule first_sent_follow_up)
  show "createCampaign srv this accountId input sent =
      (case request srv this (''/'' @ act_id accountId @ ''/campaigns'') POST
              (Some (createCampaign_params input)) sent of
         (Inl e, sent') \<Rightarrow> (Inl e, sent')
       | (Inr result, sent') \<Rightarrow>
           (case result_id result of
             Inl e \<Rightarrow> (Inl e, sent')
           | Inr new_id \<Rightarrow> getCampaign srv this new_id None sent'))" for sent
    by (simp add: createCampaign_def)
  show "\<exists>rest. snd (case result_id result of
             Inl e \<Rightarrow> (Inl e, s)
           | Inr new_id \<Rightarrow> getCampaign srv this new_id None s) = s @ rest" for result s
    using sent_getCampaign by (cases "result_id result") auto
qed

lemma update_params_keys:
  "distinct (map fst (updateCampaign_params ci))"
  "''access_token'' \<notin> fst ` set (updateCampaign_params ci)"
  "Some PUndefined \<notin> snd ` set (updateCampaign_params ci)"
  "distinct (map fst (updateAdSet_params si))"
  "''access_token'' \<notin> fst ` set (updateAdSet_params si)"
  "Some PUndefined \<notin> snd ` set (updateAdSet_params si)"
  "distinct (map fst (updateAd_params ai))"
  "''access_token'' \<notin> fst ` set (updateAd_params ai)"
  "Some PUndefined \<notin> snd ` set (updateAd_params ai)"
  "distinct (map fst (updateCustomAudience_params ui))"
  "''access_token'' \<notin> fst ` set (updateCustomAudience_params ui)"
  "Some PUndefined \<notin> snd ` set (updateCustomAudience_params ui)"
  by (simp_all add: updateCampaign_params_def updateAdSet_params_def updateAd_params_def
      updateCustomAudience_params_def)

lemma first_sent_update:
  "first_sent (updateCampaign srv this c ci) sent
     = Some (request_init this (''/'' @ c) POST (Some (assign_each [] (updateCampaign_params ci))))"
  "first_sent (updateAdSet srv this c si) sent
     = Some (request_init this (''/'' @ c) POST (Some (assign_each [] (updateAdSet_params si))))"
  "first_sent (updateAd srv this c ai) sent
     = Some (request_init this (''/'' @ c) POST (Some (assign_each [] (updateAd_params ai))))"
  "first_sent (updateCustomAudience srv this c ui) sent
     = Some (request_init this (''/'' @ c) POST
               (Some (assign_each [] (updateCustomAudience_params ui))))"
proof -
  show "first_sent (updateCampaign srv this c ci) sent
     = Some (request_init this (''/'' @ c) POST (Some (assign_each [] (updateCampaign_params ci))))"
    by (rule first_sent_follow_up [where follow = "\<lambda>result. getCampaign srv this c None"])
       (simp_all add: updateCampaign_def sent_getCampaign)
  show "first_sent (updateAdSet srv this c si) sent
     = Some (request_init this (''/'' @ c) POST (Some (assign_each [] (updateAdSet_params si))))"
    by (rule first_sent_follow_up [where follow = "\<lambda>result. getAdSet srv this c None"])
       (simp_all add: updateAdSet_def sent_get)
  show "first_sent (updateAd srv this c ai) sent
     = Some (request_init this (''/'' @ c) POST (Some (assign_each [] (updateAd_params ai))))"
    by (rule first_sent_follow_up [where follow = "\<lambda>result. getAd srv this c None"])
       (simp_all add: updateAd_def sent_get)
  show "first_sent (updateCustomAudience srv this c ui) sent
     = Some (request_init this (''/'' @ c) POST
               (Some (assign_each [] (updateCustomAudience_params ui))))"
    by (rule first_sent_follow_up [where follow = "\<lambda>result. getCustomAudience srv this c None"])
       (simp_all add: updateCustomAudience_def sent_get)
qed

lemma param_value_simps:
  "param_value (PString s) = s"
  "param_value (PNumber n) = Number_toString n"
  by (simp_all add: param_value_def)

lemma supplied_field:
  "map (\<lambda>(k, v). (k, param_value v)) (supplied ((k, map_option f v) # guarded))
     = sent_field k v (\<lambda>x. param_value (f x))
       @ map (\<lambda>(k, v). (k, param_value v)) (supplied guarded)"
  by (cases v) (simp_all add: supplied_Cons sent_field_def)

lemma updateCampaign_query:
  "request_searchParams this (Some (assign_each [] (updateCampaign_params ci)))
      = (''access_token'', accessToken (credentials this))
        # (sent_field ''name'' (CampaignUpdateInput.name ci) (\<lambda>s. s)
          @ sent_field ''status'' (CampaignUpdateInput.status ci) CampaignStatus_string
          @ sent_field ''daily_budget'' (CampaignUpdateInput.daily_budget ci) Number_toString
          @ sent_field ''lifetime_budget'' (CampaignUpdateInput.lifetime_budget ci) Number_toString
          @ sent_field ''bid_strategy'' (CampaignUpdateInput.bid_strategy ci) BidStrategy_string
          @ sent_field ''spend_cap'' (CampaignUpdateInput.spend_cap ci) Number_toString
          @ sent_field ''start_time'' (CampaignUpdateInput.start_time ci) (\<lambda>s. s)
          @ sent_field ''stop_time'' (CampaignUpdateInput.stop_time ci) (\<lambda>s. s))"
  by (simp add: update_query update_params_keys)
     (simp add: updateCampaign_params_def supplied_field supplied_Nil param_value_simps)

lemma updateAdSet_query:
  "request_searchParams this (Some (assign_each [] (updateAdSet_params si)))
      = (''access_token'', accessToken (credentials this))
        # (sent_field ''name'' (AdSetUpdateInput.name si) (\<lambda>s. s)
          @ sent_field ''status'' (AdSetUpdateInput.status si) CampaignStatus_string
          @ sent_field ''targeting'' (targeting si) JSON_stringify
          @ sent_field ''bid_amount'' (bid_amount si) Number_toString
          @ sent_field ''bid_strategy'' (AdSetUpdateInput.bid_strategy si) BidStrategy_string
          @ sent_field ''daily_budget'' (AdSetUpdateInput.daily_budget si) Number_toString
          @ sent_field ''lifetime_budget'' (AdSetUpdateInput.lifetime_budget si) Number_toString
          @ sent_field ''start_time'' (AdSetUpdateInput.start_time si) (\<lambda>s. s)
          @ sent_field ''end_time'' (end_time si) (\<lambda>s. s)
          @ sent_field ''optimization_goal'' (optimization_goal si) (\<lambda>s. s)
          @ sent_field ''billing_event'' (billing_event si) (\<lambda>s. s))"
  by (simp add: update_query update_params_keys)
     (simp add: updateAdSet_params_def supplied_field supplied_Nil param_value_simps)

lemma updateAd_query:
  "request_searchParams this (Some (assign_each [] (updateAd_params ai)))
      = (''access_token'', accessToken (credentials this))
        # (sent_field ''name'' (AdUpdateInput.name ai) (\<lambda>s. s)
          @ sent_field ''status'' (AdUpdateInput.status ai) CampaignStatus_string
          @ sent_field ''creative'' (creative ai) JSON_stringify
          @ sent_field ''tracking_specs'' (tracking_specs ai) (\<lambda>xs. JSON_stringify (JArr xs)))"
  by (simp add: update_query update_params_keys)
     (simp add: updateAd_params_def supplied_field supplied_Nil param_value_simps)

lemma updateCustomAudience_query:
  "request_searchParams this (Some (assign_each [] (updateCustomAudience_params ui)))
      = (''access_token'', accessToken (credentials this))
        # (sent_field ''name'' (CustomAudienceUpdateInput.name ui) (\<lambda>s. s)
          @ sent_field ''description'' (description ui) (\<lambda>s. s)
          @ sent_field ''opt_out_link'' (opt_out_link ui) (\<lambda>s. s))"
  by (simp add: update_query update_params_keys)
     (simp add: updateCustomAudience_params_def supplied_field supplied_Nil param_value_simps)

lemma list_params_filtering:
  "assign_each
     [(''fields'', f), (''limit'', l), (''after'', a), (''before'', b), (''effective_status'', e)]
     [(''filtering'', v)]
   = [(''fields'', f), (''limit'', l), (''after'', a), (''before'', b), (''effective_status'', e)]
     @ (case v of None \<Rightarrow> [] | Some x \<Rightarrow> [(''filtering'', x)])"
  by (cases v) (simp_all add: assign_each_def)

lemma limit_listAdAccounts:
  "map_of (request_searchParams this (Some (listAdAccounts_params params))) ''limit''
     = Some (Number_toString (or_number (Option.bind params limit) 25))"
proof -
  have e: "(''limit'', PNumber (or_number (Option.bind params limit) 25)) \<in> set (listAdAccounts_params params)"
    and d: "distinct (map fst (listAdAccounts_params params))"
    and t: "''access_token'' \<notin> fst ` set (listAdAccounts_params params)"
    by (simp_all add: listAdAccounts_params_def list_params_filtering)
  show ?thesis
    using request_query_lookup [OF d t e] by (simp add: param_value_def)
qed

lemma limit_listCampaigns:
  "map_of (request_searchParams this (Some (listCampaigns_params params))) ''limit''
     = Some (Number_toString (or_number (Option.bind params limit) 25))"
proof -
  have e: "(''limit'', PNumber (or_number (Option.bind params limit) 25)) \<in> set (listCampaigns_params params)"
    and d: "distinct (map fst (listCampaigns_params params))"
    and t: "''access_token'' \<notin> fst ` set (listCampaigns_params params)"
    by (simp_all add: listCampaigns_params_def list_params_filtering)
  show ?thesis
    using request_query_lookup [OF d t e] by (simp add: param_value_def)
qed

lemma limit_listAdSets:
  "map_of (request_searchParams this (Some (listAdSets_params params))) ''limit''
     = Some (Number_toString (or_number (Option.bind params limit) 25))"
proof -
  have e: "(''limit'', PNumber (or_number (Option.bind params limit) 25)) \<in> set (listAdSets_params params)"
    and d: "distinct (map fst (listAdSets_params params))"
    and t: "''access_token'' \<notin> fst ` set (listAdSets_params params)"
    by (cases "truthy_string (Option.bind params campaignId)";
        simp add: listAdSets_params_def list_params_filtering)+
  show ?thesis
    using request_query_lookup [OF d t e] by (simp add: param_value_def)
qed

lemma limit_listAds:
  "map_of (request_searchParams this (Some (listAds_params params))) ''limit''
     = Some (Number_toString (or_number (Option.bind params limit) 25))"
proof -
  have e: "(''limit'', PNumber (or_number (Option.bind params limit) 25)) \<in> set (listAds_params params)"
    and d: "distinct (map fst (listAds_params params))"
    and t: "''access_token'' \<notin> fst ` set (listAds_params params)"
    by (cases "truthy_string (Option.bind params adSetId)";
        simp add: listAds_params_def list_params_filtering)+
  show ?thesis
    using request_query_lookup [OF d t e] by (simp add: param_value_def)
qed

lemma limit_listAdCreatives:
  "map_of (request_searchParams this (Some (listAdCreatives_params params))) ''limit''
     = Some (Number_toString (or_number (Option.bind params limit) 25))"
proof -
  have e: "(''limit'', PNumber (or_number (Option.bind params limit) 25)) \<in> set (listAdCreatives_params params)"
    and d: "distinct (map fst (listAdCreatives_params params))"
    and t: "''access_token'' \<notin> fst ` set (listAdCreatives_params params)"
    by (simp_all add: listAdCreatives_params_def list_params_filtering)
  show ?thesis
    using request_query_lookup [OF d t e] by (simp add: param_value_def)
qed

lemma limit_listAdImages:
  "map_of (request_searchParams this (Some (listAdImages_params params))) ''limit''
     = Some (Number_toString (or_number (Option.bind params limit) 25))"
proof -
  have e: "(''limit'', PNumber (or_number (Option.bind params limit) 25)) \<in> set (listAdImages_params params)"
    and d: "distinct (map fst (listAdImages_params params))"
    and t: "''access_token'' \<notin> fst ` set (listAdImages_params params)"
    by (simp_all add: listAdImages_params_def list_params_filtering)
  show ?thesis
    using request_query_lookup [OF d t e] by (simp add: param_value_def)
qed

lemma limit_listAdVideos:
  "map_of (request_searchParams this (Some (listAdVideos_params params))) ''limit''
     = Some (Number_toString (or_number (Option.bind params limit) 25))"
proof -
  have e: "(''limit'', PNumber (or_number (Option.bind params limit) 25)) \<in> set (listAdVideos_params params)"
    and d: "distinct (map fst (listAdVideos_params params))"
    and t: "''access_token'' \<notin> fst ` set (listAdVideos_params params)"
    by (simp_all add: listAdVideos_params_def list_params_filtering)
  show ?thesis
    using request_query_lookup [OF d t e] by (simp add: param_value_def)
qed

lemma limit_listCustomAudiences:
  "map_of (request_searchParams this (Some (listCustomAudiences_params params))) ''limit''
     = Some (Number_toString (or_number (Option.bind params limit) 25))"
proof -
  have e: "(''limit'', PNumber (or_number (Option.bind params limit) 25)) \<in> set (listCustomAudiences_params params)"
    and d: "distinct (map fst (listCustomAudiences_params params))"
    and t: "''access_token'' \<notin> fst ` set (listCustomAudiences_params params)"
    by (simp_all add: listCustomAudiences_params_def list_params_filtering)
  show ?thesis
    using request_query_lookup [OF d t e] by (simp add: param_value_def)
qed

lemma limit_listPixels:
  "map_of (request_searchParams this (Some (listPixels_params params))) ''limit''
     = Some (Number_toString (or_number (Option.bind params limit) 25))"
proof -
  have e: "(''limit'', PNumber (or_number (Option.bind params limit) 25)) \<in> set (listPixels_params params)"
    and d: "distinct (map fst (listPixels_params params))"
    and t: "''access_token'' \<notin> fst ` set (listPixels_params params)"
    by (simp_all add: listPixels_params_def list_params_filtering)
  show ?thesis
    using request_query_lookup [OF d t e] by (simp add: param_value_def)
qed

lemma limit_listProductCatalogs:
  "map_of (request_searchParams this (Some (listProductCatalogs_params params))) ''limit''
     = Some (Number_toString (or_number (Option.bind params limit) 25))"
proof -
  have e: "(''limit'', PNumber (or_number (Option.bind params limit) 25)) \<in> set (listProductCatalogs_params params)"
    and d: "distinct (map fst (listProductCatalogs_params params))"
    and t: "''access_token'' \<notin> fst ` set (listProductCatalogs_params params)"
    by (simp_all add: listProductCatalogs_params_def list_params_filtering)
  show ?thesis
    using request_query_lookup [OF d t e] by (simp add: param_value_def)
qed

lemma limit_listProductSets:
  "map_of (request_searchParams this (Some (listProductSets_params params))) ''limit''
     = Some (Number_toString (or_number (Option.bind params limit) 25))"
proof -
  have e: "(''limit'', PNumber (or_number (Option.bind params limit) 25)) \<in> set (listProductSets_params params)"
    and d: "distinct (map fst (listProductSets_params params))"
    and t: "''access_token'' \<notin> fst ` set (listProductSets_params params)"
    by (simp_all add: listProductSets_params_def list_params_filtering)
  show ?thesis
    using request_query_lookup [OF d t e] by (simp add: param_value_def)
qed

lemma limit_getBusinesses:
  "map_of (request_searchParams this (Some (getBusinesses_params params))) ''limit''
     = Some (Number_toString (or_number (Option.bind params limit) 25))"
proof -
  have e: "(''limit'', PNumber (or_number (Option.bind params limit) 25)) \<in> set (getBusinesses_params params)"
    and d: "distinct (map fst (getBusinesses_params params))"
    and t: "''access_token'' \<notin> fst ` set (getBusinesses_params params)"
    by (simp_all add: getBusinesses_params_def list_params_filtering)
  show ?thesis
    using request_query_lookup [OF d t e] by (simp add: param_value_def)
qed

lemma limit_listBusinessAdAccounts:
  "map_of (request_searchParams this (Some (listBusinessAdAccounts_params params))) ''limit''
     = Some (Number_toString (or_number (Option.bind params limit) 25))"
proof -
  have e: "(''limit'', PNumber (or_number (Option.bind params limit) 25)) \<in> set (listBusinessAdAccounts_params params)"
    and d: "distinct (map fst (listBusinessAdAccounts_params params))"
    and t: "''access_token'' \<notin> fst ` set (listBusinessAdAccounts_params params)"
    by (simp_all add: listBusinessAdAccounts_params_def list_params_filtering)
  show ?thesis
    using request_query_lookup [OF d t e] by (simp add: param_value_def)
qed

lemma or_number_falsy:
  "v = Some 0 \<or> v = None \<Longrightarrow> or_number v 25 = 25"
  by (auto simp: or_number_def)

lemma Number_toString_25: "Number_toString 25 = ''25''"
  by (simp add: Number_toString_def decimal.simps)

subsection \<open>Error classification\<close>

text \<open>
  C1 (as the code has it). For an error body whose error object carries a non-zero
  numeric code \<open>n\<close>, the machine code of the classified error is fixed by the kind
  when \<open>n\<close> is mapped to a specific kind (\<open>AUTHENTICATION_FAILED\<close> for 190,
  \<open>PERMISSION_DENIED\<close> for 10 and 200..299, \<open>RATE_LIMIT_EXCEEDED\<close> for 4, 17, 32 and
  613, \<open>VALIDATION_ERROR\<close> for 100), and is the decimal string of \<open>n\<close> only in the
  generic kind.
\<close>

theorem classified_code:
  assumes "truthy (map_of errorBody ''error'')"
    and "get_prop (map_of errorBody ''error'') ''code'' = Some (JNum n)"
    and "n \<noteq> 0"
  shows "MetaAdsApiError.code (parseMetaApiError errorBody st) =
     (if n = 190 then ''AUTHENTICATION_FAILED''
      else if n = 10 \<or> (200 \<le> n \<and> n < 300) then ''PERMISSION_DENIED''
      else if n = 4 \<or> n = 17 \<or> n = 32 \<or> n = 613 then ''RATE_LIMIT_EXCEEDED''
      else if n = 100 then ''VALIDATION_ERROR''
      else Number_toString n)"
  using assms
  by (simp add: parseMetaApiError_def error_ctor_defs Let_def js_String_def
      Number_toString_not_Nil)

theorem classified_code_witness:
  "MetaAdsApiError.code (parseMetaApiError (error_body 190) 400) = ''AUTHENTICATION_FAILED''
   \<and> MetaAdsApiError.code (parseMetaApiError (error_body 2500) 400) = ''2500''"
  using classified_code [OF error_body_error, of 190 400]
    classified_code [OF error_body_error, of 2500 400]
  by (simp add: Number_toString_def decimal.simps)

text \<open>
  C1 as stated fails: the body with code 10 is classified with the machine code
  \<open>PERMISSION_DENIED\<close>, not \<open>10\<close>, and the bodies with the codes 10 and 200 give the
  same error, so the upstream code cannot be read back from it.
\<close>

theorem upstream_code_discarded:
  "truthy (map_of (error_body 10) ''error'')
   \<and> get_prop (map_of (error_body 10) ''error'') ''code'' = Some (JNum 10)
   \<and> MetaAdsApiError.code (parseMetaApiError (error_body 10) 403) \<noteq> Number_toString 10
   \<and> parseMetaApiError (error_body 10) 403 = parseMetaApiError (error_body 200) 403"
  by (simp add: error_body_def parseMetaApiError_def error_ctor_defs Let_def js_String_def
      Number_toString_def decimal.simps)

text \<open>
  C2. The classification is a function of the body and the status, with the
  precedence of the source: 190 is an authentication error; 10 and 200..299 are
  permission errors; 4, 17, 32 and 613 are rate-limit errors, retryable, with 60
  seconds; 100 is a validation error; every other numeric code is the generic error;
  none but the rate-limit error is retryable. A body with no truthy \<open>error\<close> entry is
  the generic error with the code \<open>UNKNOWN_ERROR\<close> and the HTTP status.
\<close>

theorem classification_precedence:
  "(let e = parseMetaApiError errorBody st; error = map_of errorBody ''error'' in
    (truthy error \<and> get_prop error ''code'' = Some (JNum n) \<longrightarrow>
       (n = 190 \<longrightarrow> MetaAdsApiError.name e = ''AuthenticationError'' \<and> \<not> retryable e) \<and>
       (n = 10 \<or> (200 \<le> n \<and> n < 300) \<longrightarrow>
          MetaAdsApiError.name e = ''PermissionError'' \<and> \<not> retryable e) \<and>
       (n = 4 \<or> n = 17 \<or> n = 32 \<or> n = 613 \<longrightarrow>
          MetaAdsApiError.name e = ''RateLimitError'' \<and> retryable e \<and>
          retryAfterSeconds e = Some (Num 60)) \<and>
       (n = 100 \<longrightarrow> MetaAdsApiError.name e = ''ValidationError'' \<and> \<not> retryable e) \<and>
       (n \<noteq> 190 \<and> n \<noteq> 10 \<and> \<not> (200 \<le> n \<and> n < 300) \<and> n \<noteq> 4 \<and> n \<noteq> 17 \<and> n \<noteq> 32
          \<and> n \<noteq> 613 \<and> n \<noteq> 100 \<longrightarrow>
          MetaAdsApiError.name e = ''MetaAdsApiError'' \<and> \<not> retryable e)) \<and>
    (\<not> truthy error \<longrightarrow>
       MetaAdsApiError.name e = ''MetaAdsApiError'' \<and> MetaAdsApiError.code e = ''UNKNOWN_ERROR'' \<and>
       statusCode e = Some st \<and> \<not> retryable e))"
  by (simp add: parseMetaApiError_def error_ctor_defs Let_def)

theorem classification_precedence_witness:
  "MetaAdsApiError.name (parseMetaApiError (error_body 190) 400) = ''AuthenticationError''
   \<and> MetaAdsApiError.name (parseMetaApiError (error_body 10) 400) = ''PermissionError''
   \<and> MetaAdsApiError.name (parseMetaApiError (error_body 299) 400) = ''PermissionError''
   \<and> MetaAdsApiError.name (parseMetaApiError (error_body 613) 400) = ''RateLimitError''
   \<and> retryAfterSeconds (parseMetaApiError (error_body 613) 400) = Some (Num 60)
   \<and> MetaAdsApiError.name (parseMetaApiError (error_body 100) 400) = ''ValidationError''
   \<and> MetaAdsApiError.name (parseMetaApiError (error_body 300) 400) = ''MetaAdsApiError''
   \<and> MetaAdsApiError.code (parseMetaApiError [] 502) = ''UNKNOWN_ERROR''
   \<and> statusCode (parseMetaApiError [] 502) = Some 502"
  using classification_precedence [of "error_body 190" 400 190]
    classification_precedence [of "error_body 10" 400 10]
    classification_precedence [of "error_body 299" 400 299]
    classification_precedence [of "error_body 613" 400 613]
    classification_precedence [of "error_body 100" 400 100]
    classification_precedence [of "error_body 300" 400 300]
    classification_precedence [of "[]" 502 0]
  by (simp add: Let_def error_body_error)

subsection \<open>The request primitives\<close>

text \<open>
  C3, at a header that is no integer. A response with the status 429 fails with a
  rate-limit error before the body is read, whatever the body is. With the header
  \<open>Retry-After: 120\<close> the retry-after is 120 and without the header it is 60; with
  a header that is present and is an HTTP date, \<open>Number.parseInt\<close> gives \<open>NaN\<close> and
  the retry-after is \<open>NaN\<close>, not 60.
\<close>

theorem request_429_unparseable_retry_after:
  "fst (request (upstream_429 (Some ''Wed, 21 Oct 2015 07:28:00 GMT'') b) this endpoint options
          params sent)
     = Inl (ApiError (new_RateLimitError ''Rate limit exceeded'' NaN None))
   \<and> retryAfterSeconds (new_RateLimitError ''Rate limit exceeded'' NaN None) = Some NaN
   \<and> fst (request (upstream_429 (Some ''120'') b) this endpoint options params sent)
     = Inl (ApiError (new_RateLimitError ''Rate limit exceeded'' (Num 120) None))
   \<and> fst (request (upstream_429 None b) this endpoint options params sent)
     = Inl (ApiError (new_RateLimitError ''Rate limit exceeded'' (Num 60) None))"
  by (simp add: request_def fetch_def upstream_429_def parseInt_def is_digit_def
      is_StrWhiteSpaceChar_def new_RateLimitError_def new_MetaAdsApiError_def)

text \<open>
  C4, at the status 429. \<open>postForm\<close> has no branch for 429: with the header
  \<open>Retry-After: 30\<close> and a body that is not JSON it fails with the generic error
  \<open>UNKNOWN_ERROR\<close> of status 429, which is not retryable, where \<open>request\<close> fails
  with the rate-limit error of 30 seconds on the same response.
\<close>

theorem postForm_429_not_rate_limit:
  "fst (postForm (upstream_429 (Some ''30'') None) this endpoint formData sent)
     = Inl (ApiError (new_MetaAdsApiError ''API error: 429'' (Some 429) (Some ''UNKNOWN_ERROR'')
                        False None))
   \<and> fst (request (upstream_429 (Some ''30'') None) this endpoint options params sent)
     = Inl (ApiError (new_RateLimitError ''Rate limit exceeded'' (Num 30) None))"
  by (simp add: postForm_def request_def fetch_def upstream_429_def Let_def ok_def
      throw_parseMetaApiError_def parseMetaApiError_def Number_toString_def decimal.simps
      parseInt_def is_digit_def is_StrWhiteSpaceChar_def)

text \<open>
  C5 (as the code has it). With an empty access token \<open>createMetaAdsClient\<close> returns
  no client: it throws the authentication error (status 401, code
  \<open>AUTHENTICATION_FAILED\<close>) whose message is \<open>Access token is required\<close>. The
  function takes the credentials only and sends nothing. A client that it does return
  holds a non-empty token; \<open>request\<close> sends it as the query parameter
  \<open>access_token\<close> of every call whose parameters have no entry of that name, and
  \<open>postForm\<close> appends it as the last form field.
\<close>

theorem createMetaAdsClient_requires_token:
  "(accessToken creds = [] \<longrightarrow>
      createMetaAdsClient creds
        = Inl (ApiError (new_AuthenticationError ''Access token is required'' None None)))
   \<and> MetaAdsApiError.name (new_AuthenticationError ''Access token is required'' None None)
        = ''AuthenticationError''
   \<and> MetaAdsApiError.code (new_AuthenticationError ''Access token is required'' None None)
        = ''AUTHENTICATION_FAILED''
   \<and> statusCode (new_AuthenticationError ''Access token is required'' None None) = Some 401
   \<and> MetaAdsApiError.message (new_AuthenticationError ''Access token is required'' None None)
        = ''Access token is required''
   \<and> (\<forall>c. createMetaAdsClient creds = Inr c \<longrightarrow>
         accessToken (credentials c) \<noteq> [] \<and> credentials c = creds
         \<and> (\<forall>entries. ''access_token'' \<notin> fst ` set entries \<longrightarrow>
               map_of (request_searchParams c (Some entries)) ''access_token''
                 = Some (accessToken creds))
         \<and> request_searchParams c None = [(''access_token'', accessToken creds)]
         \<and> (\<forall>srv endpoint options params sent.
               first_sent (request srv c endpoint options params) sent
                 = Some (request_init c endpoint options params))
         \<and> (\<forall>srv endpoint formData sent.
               first_sent (postForm srv c endpoint formData) sent
                 = Some \<lparr> url = baseUrl c @ ''/'' @ MetaAdsClientImpl.apiVersion c @ endpoint,
                          http_request.httpMethod = Some ''POST'',
                          http_request.headers = [],
                          body = Some (formData @ [(''access_token'', accessToken creds)]) \<rparr>))"
proof -
  have form: "first_sent (postForm srv c endpoint formData) sent
      = Some \<lparr> url = baseUrl c @ ''/'' @ MetaAdsClientImpl.apiVersion c @ endpoint,
               http_request.httpMethod = Some ''POST'',
               http_request.headers = [],
               body = Some (formData @ [(''access_token'', accessToken (credentials c))]) \<rparr>"
    for srv c endpoint formData sent
    by (rule first_sentI [where rest = "[]"]) (simp add: postForm_sent)
  show ?thesis
    by (auto simp: createMetaAdsClient_def new_MetaAdsClientImpl_def
        new_AuthenticationError_def new_MetaAdsApiError_def map_of_foldl_add_param_other
        request_searchParams_def getAuthParams_def first_sent_request form)
qed

theorem createMetaAdsClient_requires_token_witness:
  "createMetaAdsClient empty_token
     = Inl (ApiError (new_AuthenticationError ''Access token is required'' None None))
   \<and> accessToken (credentials TOKEN_client) \<noteq> []
   \<and> request_searchParams TOKEN_client None = [(''access_token'', ''TOKEN'')]
   \<and> first_sent (postForm upstream_created TOKEN_client ''/act_1/adimages'' [(''bytes'', ''AAAA'')]) []
       = Some \<lparr> url = ''https://graph.facebook.com/v21.0/act_1/adimages'',
                http_request.httpMethod = Some ''POST'',
                http_request.headers = [],
                body = Some [(''bytes'', ''AAAA''), (''access_token'', ''TOKEN'')] \<rparr>"
proof -
  have "accessToken empty_token = []"
    by (simp add: empty_token_def)
  with createMetaAdsClient_requires_token [of empty_token]
  have 1: "createMetaAdsClient empty_token
     = Inl (ApiError (new_AuthenticationError ''Access token is required'' None None))"
    by blast
  let ?creds = "\<lparr> accessToken = ''TOKEN'', adAccountId = None, businessId = None, appId = None,
       appSecret = None, TenantCredentials.apiVersion = None \<rparr>"
  have c: "createMetaAdsClient ?creds = Inr TOKEN_client"
    by (simp add: createMetaAdsClient_def TOKEN_client_def)
  with createMetaAdsClient_requires_token [of ?creds]
  have 2: "accessToken (credentials TOKEN_client) \<noteq> []
     \<and> request_searchParams TOKEN_client None = [(''access_token'', accessToken ?creds)]"
    by blast
  from c createMetaAdsClient_requires_token [of ?creds]
  have "first_sent (postForm upstream_created TOKEN_client ''/act_1/adimages'' [(''bytes'', ''AAAA'')]) []
       = Some \<lparr> url = baseUrl TOKEN_client @ ''/'' @ MetaAdsClientImpl.apiVersion TOKEN_client
                      @ ''/act_1/adimages'',
                http_request.httpMethod = Some ''POST'',
                http_request.headers = [],
                body = Some ([(''bytes'', ''AAAA'')] @ [(''access_token'', accessToken ?creds)]) \<rparr>"
    by blast
  with 1 2 show ?thesis by (simp add: TOKEN_client_fields)
qed

text \<open>
  C5 as stated fails: the authentication error that \<open>createMetaAdsClient\<close> throws on
  an empty token has the message \<open>Access token is required\<close>, which names neither
  the header \<open>X-Meta-Access-Token\<close> nor any header. The error that names the header
  is the one of \<open>validateCredentials\<close>, a plain \<open>Error\<close> outside the taxonomy.
\<close>

theorem authentication_error_names_no_source:
  "createMetaAdsClient empty_token
     = Inl (ApiError (new_AuthenticationError ''Access token is required'' None None))
   \<and> \<not> String_includes (MetaAdsApiError.message
                    (new_AuthenticationError ''Access token is required'' None None))
         ''X-Meta-Access-Token''
   \<and> \<not> String_includes (MetaAdsApiError.message
                    (new_AuthenticationError ''Access token is required'' None None))
         ''header''
   \<and> validateCredentials empty_token
     = Inl (Error ''Missing credentials. Provide X-Meta-Access-Token header.'')
   \<and> String_includes ''Missing credentials. Provide X-Meta-Access-Token header.'' ''X-Meta-Access-Token''"
  by (simp add: createMetaAdsClient_def validateCredentials_def empty_token_def
      new_AuthenticationError_def new_MetaAdsApiError_def)

subsection \<open>Entity operations\<close>

text \<open>
  C6. The first request of \<open>createCampaign\<close> is the POST to
  \<open>/act_<id>/campaigns\<close> with the parameters of \<open>createCampaign_params\<close>. Its query
  has one pair per key; when the input has no status the status is \<open>PAUSED\<close>, when
  it has no special ad categories they are \<open>["NONE"]\<close>, and a status of the input is
  sent as it is.
\<close>

theorem createCampaign_defaults:
  "(let query = request_searchParams this (Some (createCampaign_params input)) in
     first_sent (createCampaign srv this accountId input) sent
       = Some (request_init this (''/'' @ act_id accountId @ ''/campaigns'') POST
                 (Some (createCampaign_params input)))
     \<and> distinct (map fst query)
     \<and> (CampaignCreateInput.status input = None \<longrightarrow> map_of query ''status'' = Some ''PAUSED'')
     \<and> (special_ad_categories input = None \<longrightarrow>
          map_of query ''special_ad_categories''
            = Some (CHR ''['' # CHR 0x22 # ''NONE'' @ [CHR 0x22, CHR '']'']))
     \<and> (\<forall>s. CampaignCreateInput.status input = Some s \<longrightarrow>
          map_of query ''status'' = Some (CampaignStatus_string s)))"
proof -
  note k = keys_createCampaign_params [of input]
  have "map_of (request_searchParams this (Some (createCampaign_params input))) ''status''
      = Some (param_value (PString (case CampaignCreateInput.status input of
        None \<Rightarrow> ''PAUSED'' | Some s \<Rightarrow> CampaignStatus_string s)))"
    by (rule request_query_lookup [OF k(1) k(2) k(3)]) simp
  moreover have "map_of (request_searchParams this (Some (createCampaign_params input)))
        ''special_ad_categories''
      = Some (param_value (PArray (case special_ad_categories input of
        None \<Rightarrow> [''NONE''] | Some cs \<Rightarrow> map SpecialAdCategory_string cs)))"
    by (rule request_query_lookup [OF k(1) k(2) k(4)]) simp
  moreover have "param_value (PArray [''NONE'']) = CHR ''['' # CHR 0x22 # ''NONE'' @ [CHR 0x22, CHR '']'']"
    by (simp add: param_value_def QuoteJSONString_def QuoteJSONChar_def)
  ultimately show ?thesis
    using distinct_request_query [OF k(1) k(2), of this]
    by (auto simp: Let_def first_sent_createCampaign param_value_def)
qed

text \<open>
  The campaign \<open>Spring Sale\<close> with the objective \<open>OUTCOME_SALES\<close> and nothing else,
  on the account 123.
\<close>

theorem createCampaign_defaults_witness:
  "first_sent (createCampaign upstream_created TOKEN_client ''123'' spring_sale) []
     = Some \<lparr> url = ''https://graph.facebook.com/v21.0/act_123/campaigns?access_token=TOKEN&name=Spring+Sale&objective=OUTCOME_SALES&status=PAUSED&special_ad_categories=%5B%22NONE%22%5D'',
              http_request.httpMethod = Some ''POST'',
              http_request.headers = [(''Content-Type'', ''application/json'')],
              body = None \<rparr>
   \<and> map_of (request_searchParams TOKEN_client (Some (createCampaign_params spring_sale))) ''status''
       = Some ''PAUSED''
   \<and> map_of (request_searchParams TOKEN_client (Some (createCampaign_params spring_sale)))
         ''special_ad_categories''
       = Some (CHR ''['' # CHR 0x22 # ''NONE'' @ [CHR 0x22, CHR '']''])"
  using createCampaign_defaults [of TOKEN_client spring_sale upstream_created "''123''" "[]"]
  by (simp add: spring_sale_def TOKEN_client_def createCampaign_params_def eval_defs
      truthy_number_def truthy_string_def)

text \<open>
  C7. Let the entries of the parameter object have distinct keys, as the entries of an
  object have. An entry whose value is \<open>undefined\<close> adds no pair to the query: its key
  is not among the names of the query (the name \<open>access_token\<close> apart, which the
  credential always adds). An entry with any other value is in the query under its
  key, with the value \<open>String(value)\<close> for a string, a number or a boolean and
  \<open>JSON.stringify(value)\<close> for an array; so are 0, the empty string and \<open>false\<close>, as
  \<open>0\<close>, the empty value and \<open>false\<close>. When no key is \<open>access_token\<close> the query is
  the credential followed by the defined entries in their order. The request sent has
  the URL \<open>{base}/{version}{endpoint}?\<close> followed by the serialized query.
\<close>

theorem request_parameters:
  assumes "distinct (map fst entries)"
  shows "(\<forall>k. (k, PUndefined) \<in> set entries \<and> k \<noteq> ''access_token'' \<longrightarrow>
            k \<notin> fst ` set (request_searchParams this (Some entries)))
         \<and> (\<forall>k v. (k, v) \<in> set entries \<and> v \<noteq> PUndefined \<longrightarrow>
               map_of (request_searchParams this (Some entries)) k = Some (param_value v))
         \<and> (''access_token'' \<notin> fst ` set entries \<longrightarrow>
              request_searchParams this (Some entries) =
                (''access_token'', accessToken (credentials this))
                # map (\<lambda>(k, v). (k, param_value v)) (filter (\<lambda>(k, v). v \<noteq> PUndefined) entries))
         \<and> first_sent (request srv this endpoint options (Some entries)) sent
             = Some (request_init this endpoint options (Some entries))
         \<and> url (request_init this endpoint options (Some entries))
             = baseUrl this @ ''/'' @ MetaAdsClientImpl.apiVersion this @ endpoint @ ''?''
               @ URLSearchParams_toString (request_searchParams this (Some entries))
         \<and> param_value (PNumber 0) = ''0'' \<and> param_value (PString []) = []
         \<and> param_value (PBoolean False) = ''false''
         \<and> (\<forall>s. param_value (PString s) = s)
         \<and> (\<forall>n. param_value (PNumber n) = Number_toString n)
         \<and> (\<forall>b. param_value (PBoolean b) = (if b then ''true'' else ''false''))
         \<and> (\<forall>xs. param_value (PArray xs) = JSON_stringify (JArr (map JStr xs)))"
proof -
  have absent: "k \<notin> fst ` set (request_searchParams this (Some entries))"
    if "(k, PUndefined) \<in> set entries" and "k \<noteq> ''access_token''" for k
  proof -
    have "v = PUndefined" if "(k, v) \<in> set entries" for v
      using assms that \<open>(k, PUndefined) \<in> set entries\<close> by (meson eq_key_imp_eq_value)
    with that(2) show ?thesis
      by (auto simp: request_searchParams_def getAuthParams_def keys_foldl_add_param)
  qed
  have present: "map_of (request_searchParams this (Some entries)) k = Some (param_value v)"
    if "(k, v) \<in> set entries" and "v \<noteq> PUndefined" for k v
    using assms that
    by (simp add: request_searchParams_def map_of_foldl_add_param_defined)
  show ?thesis
    using absent present request_query [OF assms, of this]
    by (simp add: first_sent_request request_init_def param_value_def Number_toString_def
        decimal.simps)
qed

theorem request_parameters_witness:
  "request_searchParams TOKEN_client (Some example_params) =
     [(''access_token'', ''TOKEN''), (''limit'', ''0''), (''q'', []), (''summary'', ''false''),
      (''effective_status'',
         CHR ''['' # CHR 0x22 # ''ACTIVE'' @ [CHR 0x22, CHR '','', CHR 0x22] @ ''PAUSED''
         @ [CHR 0x22, CHR '']''])]
   \<and> url (request_init TOKEN_client ''/act_1/campaigns'' no_options (Some example_params))
       = ''https://graph.facebook.com/v21.0/act_1/campaigns?access_token=TOKEN&limit=0&q=&summary=false&effective_status=%5B%22ACTIVE%22%2C%22PAUSED%22%5D''
   \<and> ''after'' \<notin> fst ` set (request_searchParams TOKEN_client (Some example_params))
   \<and> map_of (request_searchParams TOKEN_client (Some example_params)) ''limit'' = Some ''0''"
proof -
  have d: "distinct (map fst example_params)"
    and t: "''access_token'' \<notin> fst ` set example_params"
    by (simp_all add: example_params_def)
  note p = request_parameters [OF d, of TOKEN_client upstream_created "''/act_1/campaigns''"
      no_options "[]"]
  from p t have "request_searchParams TOKEN_client (Some example_params) =
      (''access_token'', accessToken (credentials TOKEN_client))
      # map (\<lambda>(k, v). (k, param_value v)) (filter (\<lambda>(k, v). v \<noteq> PUndefined) example_params)"
    by blast
  then have q: "request_searchParams TOKEN_client (Some example_params) =
     [(''access_token'', ''TOKEN''), (''limit'', ''0''), (''q'', []), (''summary'', ''false''),
      (''effective_status'',
         CHR ''['' # CHR 0x22 # ''ACTIVE'' @ [CHR 0x22, CHR '','', CHR 0x22] @ ''PAUSED''
         @ [CHR 0x22, CHR '']''])]"
    by (simp add: example_params_def TOKEN_client_fields param_value_def Number_toString_def
        decimal.simps QuoteJSONString_def QuoteJSONChar_def)
  from p have "url (request_init TOKEN_client ''/act_1/campaigns'' no_options (Some example_params))
      = baseUrl TOKEN_client @ ''/'' @ MetaAdsClientImpl.apiVersion TOKEN_client
        @ ''/act_1/campaigns'' @ ''?''
        @ URLSearchParams_toString (request_searchParams TOKEN_client (Some example_params))"
    by blast
  then have u: "url (request_init TOKEN_client ''/act_1/campaigns'' no_options (Some example_params))
       = ''https://graph.facebook.com/v21.0/act_1/campaigns?access_token=TOKEN&limit=0&q=&summary=false&effective_status=%5B%22ACTIVE%22%2C%22PAUSED%22%5D''"
    unfolding q
    by (simp add: TOKEN_client_fields URLSearchParams_toString_def urlencode_def
        urlencode_char_def utf8_encode_def percent_byte_def hex_upper_def)
  have "(''after'', PUndefined) \<in> set example_params" and "''after'' \<noteq> ''access_token''"
    by (simp_all add: example_params_def)
  with p have n: "''after'' \<notin> fst ` set (request_searchParams TOKEN_client (Some example_params))"
    by blast
  have "(''limit'', PNumber 0) \<in> set example_params" and "PNumber 0 \<noteq> PUndefined"
    by (simp_all add: example_params_def)
  with p have "map_of (request_searchParams TOKEN_client (Some example_params)) ''limit''
      = Some (param_value (PNumber 0))"
    by blast
  then have l: "map_of (request_searchParams TOKEN_client (Some example_params)) ''limit''
      = Some ''0''"
    by (simp add: param_value_def Number_toString_def decimal.simps)
  from q u n l show ?thesis by blast
qed

text \<open>
  C8. For each of the four update operations (campaign, ad set, ad, custom audience)
  the first request is the POST to \<open>/<id>\<close>, and its query is the credential
  followed, field by field of the input record in the order of the source, by the
  pair of each field that is supplied and by nothing for a field that is not. In
  particular, for every field of every update input: when that field alone is
  supplied, with any value, the query is the credential and that field.
\<close>

theorem sparse_update:
  "(first_sent (updateCampaign srv this c ci) sent
      = Some (request_init this (''/'' @ c) POST (Some (assign_each [] (updateCampaign_params ci))))
    \<and> request_searchParams this (Some (assign_each [] (updateCampaign_params ci)))
      = (''access_token'', accessToken (credentials this))
        # (sent_field ''name'' (CampaignUpdateInput.name ci) (\<lambda>s. s)
          @ sent_field ''status'' (CampaignUpdateInput.status ci) CampaignStatus_string
          @ sent_field ''daily_budget'' (CampaignUpdateInput.daily_budget ci) Number_toString
          @ sent_field ''lifetime_budget'' (CampaignUpdateInput.lifetime_budget ci) Number_toString
          @ sent_field ''bid_strategy'' (CampaignUpdateInput.bid_strategy ci) BidStrategy_string
          @ sent_field ''spend_cap'' (CampaignUpdateInput.spend_cap ci) Number_toString
          @ sent_field ''start_time'' (CampaignUpdateInput.start_time ci) (\<lambda>s. s)
          @ sent_field ''stop_time'' (CampaignUpdateInput.stop_time ci) (\<lambda>s. s))
    \<and> (\<forall>v. request_searchParams this (Some (assign_each [] (updateCampaign_params (no_campaign_update\<lparr>CampaignUpdateInput.name := Some v\<rparr>))))
          = [(''access_token'', accessToken (credentials this)), (''name'', v)])
    \<and> (\<forall>v. request_searchParams this (Some (assign_each [] (updateCampaign_params (no_campaign_update\<lparr>CampaignUpdateInput.status := Some v\<rparr>))))
          = [(''access_token'', accessToken (credentials this)), (''status'', CampaignStatus_string v)])
    \<and> (\<forall>v. request_searchParams this (Some (assign_each [] (updateCampaign_params (no_campaign_update\<lparr>CampaignUpdateInput.daily_budget := Some v\<rparr>))))
          = [(''access_token'', accessToken (credentials this)), (''daily_budget'', Number_toString v)])
    \<and> (\<forall>v. request_searchParams this (Some (assign_each [] (updateCampaign_params (no_campaign_update\<lparr>CampaignUpdateInput.lifetime_budget := Some v\<rparr>))))
          = [(''access_token'', accessToken (credentials this)), (''lifetime_budget'', Number_toString v)])
    \<and> (\<forall>v. request_searchParams this (Some (assign_each [] (updateCampaign_params (no_campaign_update\<lparr>CampaignUpdateInput.bid_strategy := Some v\<rparr>))))
          = [(''access_token'', accessToken (credentials this)), (''bid_strategy'', BidStrategy_string v)])
    \<and> (\<forall>v. request_searchParams this (Some (assign_each [] (updateCampaign_params (no_campaign_update\<lparr>CampaignUpdateInput.spend_cap := Some v\<rparr>))))
          = [(''access_token'', accessToken (credentials this)), (''spend_cap'', Number_toString v)])
    \<and> (\<forall>v. request_searchParams this (Some (assign_each [] (updateCampaign_params (no_campaign_update\<lparr>CampaignUpdateInput.start_time := Some v\<rparr>))))
          = [(''access_token'', accessToken (credentials this)), (''start_time'', v)])
    \<and> (\<forall>v. request_searchParams this (Some (assign_each [] (updateCampaign_params (no_campaign_update\<lparr>CampaignUpdateInput.stop_time := Some v\<rparr>))))
          = [(''access_token'', accessToken (credentials this)), (''stop_time'', v)]))
   \<and> (first_sent (updateAdSet srv this c si) sent
      = Some (request_init this (''/'' @ c) POST (Some (assign_each [] (updateAdSet_params si))))
    \<and> request_searchParams this (Some (assign_each [] (updateAdSet_params si)))
      = (''access_token'', accessToken (credentials this))
        # (sent_field ''name'' (AdSetUpdateInput.name si) (\<lambda>s. s)
          @ sent_field ''status'' (AdSetUpdateInput.status si) CampaignStatus_string
          @ sent_field ''targeting'' (targeting si) JSON_stringify
          @ sent_field ''bid_amount'' (bid_amount si) Number_toString
          @ sent_field ''bid_strategy'' (AdSetUpdateInput.bid_strategy si) BidStrategy_string
          @ sent_field ''daily_budget'' (AdSetUpdateInput.daily_budget si) Number_toString
          @ sent_field ''lifetime_budget'' (AdSetUpdateInput.lifetime_budget si) Number_toString
          @ sent_field ''start_time'' (AdSetUpdateInput.start_time si) (\<lambda>s. s)
          @ sent_field ''end_time'' (end_time si) (\<lambda>s. s)
          @ sent_field ''optimization_goal'' (optimization_goal si) (\<lambda>s. s)
          @ sent_field ''billing_event'' (billing_event si) (\<lambda>s. s))
    \<and> (\<forall>v. request_searchParams this (Some (assign_each [] (updateAdSet_params (no_adset_update\<lparr>AdSetUpdateInput.name := Some v\<rparr>))))
          = [(''access_token'', accessToken (credentials this)), (''name'', v)])
    \<and> (\<forall>v. request_searchParams this (Some (assign_each [] (updateAdSet_params (no_adset_update\<lparr>AdSetUpdateInput.status := Some v\<rparr>))))
          = [(''access_token'', accessToken (credentials this)), (''status'', CampaignStatus_string v)])
    \<and> (\<forall>v. request_searchParams this (Some (assign_each [] (updateAdSet_params (no_adset_update\<lparr>AdSetUpdateInput.targeting := Some v\<rparr>))))
          = [(''access_token'', accessToken (credentials this)), (''targeting'', JSON_stringify v)])
    \<and> (\<forall>v. request_searchParams this (Some (assign_each [] (updateAdSet_params (no_adset_update\<lparr>AdSetUpdateInput.bid_amount := Some v\<rparr>))))
          = [(''access_token'', accessToken (credentials this)), (''bid_amount'', Number_toString v)])
    \<and> (\<forall>v. request_searchParams this (Some (assign_each [] (updateAdSet_params (no_adset_update\<lparr>AdSetUpdateInput.bid_strategy := Some v\<rparr>))))
          = [(''access_token'', accessToken (credentials this)), (''bid_strategy'', BidStrategy_string v)])
    \<and> (\<forall>v. request_searchParams this (Some (assign_each [] (updateAdSet_params (no_adset_update\<lparr>AdSetUpdateInput.daily_budget := Some v\<rparr>))))
          = [(''access_token'', accessToken (credentials this)), (''daily_budget'', Number_toString v)])
    \<and> (\<forall>v. request_searchParams this (Some (assign_each [] (updateAdSet_params (no_adset_update\<lparr>AdSetUpdateInput.lifetime_budget := Some v\<rparr>))))
          = [(''access_token'', accessToken (credentials this)), (''lifetime_budget'', Number_toString v)])
    \<and> (\<forall>v. request_searchParams this (Some (assign_each [] (updateAdSet_params (no_adset_update\<lparr>AdSetUpdateInput.start_time := Some v\<rparr>))))
          = [(''access_token'', accessToken (credentials this)), (''start_time'', v)])
    \<and> (\<forall>v. request_searchParams this (Some (assign_each [] (updateAdSet_params (no_adset_update\<lparr>AdSetUpdateInput.end_time := Some v\<rparr>))))
          = [(''access_token'', accessToken (credentials this)), (''end_time'', v)])
    \<and> (\<forall>v. request_searchParams this (Some (assign_each [] (updateAdSet_params (no_adset_update\<lparr>AdSetUpdateInput.optimization_goal := Some v\<rparr>))))
          = [(''access_token'', accessToken (credentials this)), (''optimization_goal'', v)])
    \<and> (\<forall>v. request_searchParams this (Some (assign_each [] (updateAdSet_params (no_adset_update\<lparr>AdSetUpdateInput.billing_event := Some v\<rparr>))))
          = [(''access_token'', accessToken (credentials this)), (''billing_event'', v)]))
   \<and> (first_sent (updateAd srv this c ai) sent
      = Some (request_init this (''/'' @ c) POST (Some (assign_each [] (updateAd_params ai))))
    \<and> request_searchParams this (Some (assign_each [] (updateAd_params ai)))
      = (''access_token'', accessToken (credentials this))
        # (sent_field ''name'' (AdUpdateInput.name ai) (\<lambda>s. s)
          @ sent_field ''status'' (AdUpdateInput.status ai) CampaignStatus_string
          @ sent_field ''creative'' (creative ai) JSON_stringify
          @ sent_field ''tracking_specs'' (tracking_specs ai) (\<lambda>xs. JSON_stringify (JArr xs)))
    \<and> (\<forall>v. request_searchParams this (Some (assign_each [] (updateAd_params (no_ad_update\<lparr>AdUpdateInput.name := Some v\<rparr>))))
          = [(''access_token'', accessToken (credentials this)), (''name'', v)])
    \<and> (\<forall>v. request_searchParams this (Some (assign_each [] (updateAd_params (no_ad_update\<lparr>AdUpdateInput.status := Some v\<rparr>))))
          = [(''access_token'', accessToken (credentials this)), (''status'', CampaignStatus_string v)])
    \<and> (\<forall>v. request_searchParams this (Some (assign_each [] (updateAd_params (no_ad_update\<lparr>AdUpdateInput.creative := Some v\<rparr>))))
          = [(''access_token'', accessToken (credentials this)), (''creative'', JSON_stringify v)])
    \<and> (\<forall>v. request_searchParams this (Some (assign_each [] (updateAd_params (no_ad_update\<lparr>AdUpdateInput.tracking_specs := Some v\<rparr>))))
          = [(''access_token'', accessToken (credentials this)), (''tracking_specs'', JSON_stringify (JArr v))]))
   \<and> (first_sent (updateCustomAudience srv this c ui) sent
      = Some (request_init this (''/'' @ c) POST (Some (assign_each [] (updateCustomAudience_params ui))))
    \<and> request_searchParams this (Some (assign_each [] (updateCustomAudience_params ui)))
      = (''access_token'', accessToken (credentials this))
        # (sent_field ''name'' (CustomAudienceUpdateInput.name ui) (\<lambda>s. s)
          @ sent_field ''description'' (description ui) (\<lambda>s. s)
          @ sent_field ''opt_out_link'' (opt_out_link ui) (\<lambda>s. s))
    \<and> (\<forall>v. request_searchParams this (Some (assign_each [] (updateCustomAudience_params (no_audience_update\<lparr>CustomAudienceUpdateInput.name := Some v\<rparr>))))
          = [(''access_token'', accessToken (credentials this)), (''name'', v)])
    \<and> (\<forall>v. request_searchParams this (Some (assign_each [] (updateCustomAudience_params (no_audience_update\<lparr>CustomAudienceUpdateInput.description := Some v\<rparr>))))
          = [(''access_token'', accessToken (credentials this)), (''description'', v)])
    \<and> (\<forall>v. request_searchParams this (Some (assign_each [] (updateCustomAudience_params (no_audience_update\<lparr>CustomAudienceUpdateInput.opt_out_link := Some v\<rparr>))))
          = [(''access_token'', accessToken (credentials this)), (''opt_out_link'', v)]))"
  by (simp add: first_sent_update updateCampaign_query updateAdSet_query updateAd_query updateCustomAudience_query
      sent_field_def no_campaign_update_def no_adset_update_def no_ad_update_def no_audience_update_def)

text \<open>An update of the campaign 120330 that sets the daily budget to 5000.\<close>

theorem sparse_update_witness:
  "first_sent (updateCampaign upstream_created TOKEN_client ''120330'' budget_only) []
     = Some \<lparr> url = ''https://graph.facebook.com/v21.0/120330?access_token=TOKEN&daily_budget=5000'',
              http_request.httpMethod = Some ''POST'',
              http_request.headers = [(''Content-Type'', ''application/json'')],
              body = None \<rparr>
   \<and> request_searchParams TOKEN_client (Some (assign_each [] (updateCampaign_params budget_only)))
     = [(''access_token'', ''TOKEN''), (''daily_budget'', ''5000'')]
   \<and> budget_only = no_campaign_update\<lparr>CampaignUpdateInput.daily_budget := Some 5000\<rparr>"
proof -
  note u = sparse_update [of upstream_created TOKEN_client "''120330''" budget_only "[]",
      THEN conjunct1]
  have b: "budget_only = no_campaign_update\<lparr>CampaignUpdateInput.daily_budget := Some 5000\<rparr>"
    by (simp add: budget_only_def no_campaign_update_def)
  from u have "\<forall>v. request_searchParams TOKEN_client
      (Some (assign_each [] (updateCampaign_params
         (no_campaign_update\<lparr>CampaignUpdateInput.daily_budget := Some v\<rparr>))))
     = [(''access_token'', accessToken (credentials TOKEN_client)),
        (''daily_budget'', Number_toString v)]"
    by blast
  then have q: "request_searchParams TOKEN_client
      (Some (assign_each [] (updateCampaign_params budget_only)))
     = [(''access_token'', ''TOKEN''), (''daily_budget'', ''5000'')]"
    unfolding b by (simp add: TOKEN_client_fields Number_toString_def decimal.simps)
  from u have "first_sent (updateCampaign upstream_created TOKEN_client ''120330'' budget_only) []
      = Some (request_init TOKEN_client (''/'' @ ''120330'') POST
                (Some (assign_each [] (updateCampaign_params budget_only))))"
    by blast
  then have "first_sent (updateCampaign upstream_created TOKEN_client ''120330'' budget_only) []
     = Some \<lparr> url = ''https://graph.facebook.com/v21.0/120330?access_token=TOKEN&daily_budget=5000'',
              http_request.httpMethod = Some ''POST'',
              http_request.headers = [(''Content-Type'', ''application/json'')],
              body = None \<rparr>"
    by (simp add: request_init_def q TOKEN_client_fields POST_def URLSearchParams_toString_def
        urlencode_def urlencode_char_def utf8_encode_def percent_byte_def hex_upper_def)
  with q b show ?thesis by blast
qed

text \<open>
  C9. The id of an account-scoped path is normalized by \<open>act_id\<close>: the result starts
  with \<open>act_\<close>, and normalizing twice is normalizing once, so the operations keyed by
  an account send the same request for an id and for its normal form.
\<close>

theorem act_id_idempotent:
  "act_id (act_id a) = act_id a \<and> prefix ''act_'' (act_id a)
   \<and> getAdAccount srv this (act_id a) flds = getAdAccount srv this a flds
   \<and> listCampaigns srv this (act_id a) params = listCampaigns srv this a params"
  by (simp add: act_id_def getAdAccount_def listCampaigns_def)

text \<open>
  C10. Every list operation computes its page size as \<open>params?.limit || 25\<close>. With
  the limit 0, or with no limit, the query of the operation has \<open>limit=25\<close>, and the
  parameters are those of the same call with the limit 25; so has the call with no
  parameters at all. The request primitive itself serializes a limit of 0 as
  \<open>limit=0\<close>. Each list operation sends the request that \<open>request\<close> builds from its
  parameters.
\<close>

theorem list_limit_default:
  "(\<forall>build \<in> set list_params_builders.
      (\<forall>p. limit p = Some 0 \<or> limit p = None \<longrightarrow>
         map_of (request_searchParams this (Some (build (Some p)))) ''limit'' = Some ''25''
         \<and> build (Some p) = build (Some (p\<lparr>limit := Some 25\<rparr>)))
      \<and> map_of (request_searchParams this (Some (build None))) ''limit'' = Some ''25'')
   \<and> request_searchParams this (Some [(''limit'', PNumber 0)])
       = [(''access_token'', accessToken (credentials this)), (''limit'', ''0'')]
   \<and> first_sent (listAdAccounts srv this params) sent
       = Some (request_init this (''/me/adaccounts'') no_options (Some (listAdAccounts_params params)))
   \<and> first_sent (listCampaigns srv this a params) sent
       = Some (request_init this (''/'' @ act_id a @ ''/campaigns'') no_options (Some (listCampaigns_params params)))
   \<and> first_sent (listAdSets srv this a params) sent
       = Some (request_init this (''/'' @ act_id a @ ''/adsets'') no_options (Some (listAdSets_params params)))
   \<and> first_sent (listAds srv this a params) sent
       = Some (request_init this (''/'' @ act_id a @ ''/ads'') no_options (Some (listAds_params params)))
   \<and> first_sent (listAdCreatives srv this a params) sent
       = Some (request_init this (''/'' @ act_id a @ ''/adcreatives'') no_options (Some (listAdCreatives_params params)))
   \<and> first_sent (listAdImages srv this a params) sent
       = Some (request_init this (''/'' @ act_id a @ ''/adimages'') no_options (Some (listAdImages_params params)))
   \<and> first_sent (listAdVideos srv this a params) sent
       = Some (request_init this (''/'' @ act_id a @ ''/advideos'') no_options (Some (listAdVideos_params params)))
   \<and> first_sent (listCustomAudiences srv this a params) sent
       = Some (request_init this (''/'' @ act_id a @ ''/customaudiences'') no_options (Some (listCustomAudiences_params params)))
   \<and> first_sent (listPixels srv this a params) sent
       = Some (request_init this (''/'' @ act_id a @ ''/adspixels'') no_options (Some (listPixels_params params)))
   \<and> first_sent (listProductCatalogs srv this a params) sent
       = Some (request_init this (''/'' @ a @ ''/owned_product_catalogs'') no_options (Some (listProductCatalogs_params params)))
   \<and> first_sent (listProductSets srv this a params) sent
       = Some (request_init this (''/'' @ a @ ''/product_sets'') no_options (Some (listProductSets_params params)))
   \<and> first_sent (getBusinesses srv this params) sent
       = Some (request_init this (''/me/businesses'') no_options (Some (getBusinesses_params params)))
   \<and> first_sent (listBusinessAdAccounts srv this a params) sent
       = Some (request_init this (''/'' @ a @ ''/owned_ad_accounts'') no_options (Some (listBusinessAdAccounts_params params)))"
proof -
  have eq: "\<And>p. limit p = Some 0 \<or> limit p = None \<Longrightarrow>
      or_number (limit p) 25 = or_number (limit (p\<lparr>limit := Some 25\<rparr>)) 25"
    by (auto simp: or_number_def)
  have zero: "request_searchParams this (Some [(''limit'', PNumber 0)])
       = [(''access_token'', accessToken (credentials this)), (''limit'', ''0'')]"
    by (simp add: request_searchParams_def getAuthParams_def add_param_def
        Number_toString_def decimal.simps)
  have build: "map_of (request_searchParams this (Some (build params))) ''limit''
                = Some (Number_toString (or_number (Option.bind params limit) 25))"
    if "build \<in> set list_params_builders" for build params
    using that
    by (auto simp: list_params_builders_def limit_listAdAccounts limit_listCampaigns limit_listAdSets limit_listAds
        limit_listAdCreatives limit_listAdImages limit_listAdVideos limit_listCustomAudiences
        limit_listPixels limit_listProductCatalogs limit_listProductSets limit_getBusinesses
        limit_listBusinessAdAccounts)
  have same: "build (Some p) = build (Some (p\<lparr>limit := Some 25\<rparr>))"
    if "build \<in> set list_params_builders"
      and "limit p = Some 0 \<or> limit p = None" for build p
    using that eq [of p]
    by (auto simp: list_params_builders_def listAdAccounts_params_def listCampaigns_params_def listAdSets_params_def
        listAds_params_def listAdCreatives_params_def listAdImages_params_def
        listAdVideos_params_def listCustomAudiences_params_def listPixels_params_def
        listProductCatalogs_params_def listProductSets_params_def getBusinesses_params_def
        listBusinessAdAccounts_params_def)
  have sent: "first_sent (listAdAccounts srv this params) sent
      = Some (request_init this (''/me/adaccounts'') no_options (Some (listAdAccounts_params params)))"
    "first_sent (listCampaigns srv this a params) sent
      = Some (request_init this (''/'' @ act_id a @ ''/campaigns'') no_options (Some (listCampaigns_params params)))"
    "first_sent (listAdSets srv this a params) sent
      = Some (request_init this (''/'' @ act_id a @ ''/adsets'') no_options (Some (listAdSets_params params)))"
    "first_sent (listAds srv this a params) sent
      = Some (request_init this (''/'' @ act_id a @ ''/ads'') no_options (Some (listAds_params params)))"
    "first_sent (listAdCreatives srv this a params) sent
      = Some (request_init this (''/'' @ act_id a @ ''/adcreatives'') no_options (Some (listAdCreatives_params params)))"
    "first_sent (listAdImages srv this a params) sent
      = Some (request_init this (''/'' @ act_id a @ ''/adimages'') no_options (Some (listAdImages_params params)))"
    "first_sent (listAdVideos srv this a params) sent
      = Some (request_init this (''/'' @ act_id a @ ''/advideos'') no_options (Some (listAdVideos_params params)))"
    "first_sent (listCustomAudiences srv this a params) sent
      = Some (request_init this (''/'' @ act_id a @ ''/customaudiences'') no_options (Some (listCustomAudiences_params params)))"
    "first_sent (listPixels srv this a params) sent
      = Some (request_init this (''/'' @ act_id a @ ''/adspixels'') no_options (Some (listPixels_params params)))"
    "first_sent (listProductCatalogs srv this a params) sent
      = Some (request_init this (''/'' @ a @ ''/owned_product_catalogs'') no_options (Some (listProductCatalogs_params params)))"
    "first_sent (listProductSets srv this a params) sent
      = Some (request_init this (''/'' @ a @ ''/product_sets'') no_options (Some (listProductSets_params params)))"
    "first_sent (getBusinesses srv this params) sent
      = Some (request_init this (''/me/businesses'') no_options (Some (getBusinesses_params params)))"
    "first_sent (listBusinessAdAccounts srv this a params) sent
      = Some (request_init this (''/'' @ a @ ''/owned_ad_accounts'') no_options (Some (listBusinessAdAccounts_params params)))"
    by (simp_all add: first_sent_request
        listAdAccounts_def listCampaigns_def listAdSets_def listAds_def
        listAdCreatives_def listAdImages_def listAdVideos_def listCustomAudiences_def
        listPixels_def listProductCatalogs_def listProductSets_def getBusinesses_def
        listBusinessAdAccounts_def)
  show ?thesis
    apply (intro conjI ballI allI impI)
    subgoal for build p using build [of build "Some p"] by (auto simp: or_number_falsy Number_toString_25)
    subgoal for build p using same [of build p] by simp
    subgoal for build using build [of build None] by (simp add: or_number_def Number_toString_25)
    using zero sent by simp_all
qed

theorem list_limit_default_witness:
  "map_of (request_searchParams TOKEN_client (Some (listAdSets_params (Some zero_limit))))
     ''limit'' = Some ''25''
   \<and> listAdSets_params (Some zero_limit) = listAdSets_params (Some (zero_limit\<lparr>limit := Some 25\<rparr>))
   \<and> map_of (request_searchParams TOKEN_client (Some (listAdAccounts_params None))) ''limit''
       = Some ''25''"
proof -
  have "limit zero_limit = Some 0 \<or> limit zero_limit = None"
    by (simp add: zero_limit_def)
  moreover have "listAdSets_params \<in> set list_params_builders"
    and "listAdAccounts_params \<in> set list_params_builders"
    by (simp_all add: list_params_builders_def)
  ultimately show ?thesis
    using list_limit_default [of TOKEN_client upstream_created None "[]" "[]", THEN conjunct1]
    by blast
qed

end
